theory Spec2Isabelle
  imports Complex_Main
begin

section \<open>JavaScript numbers\<close>

text \<open>
  The editor and the bake pipeline compute with JavaScript numbers. They are modelled as
  \<^typ>\<open>real\<close>: every operation is the exact real operation, and rounding of the
  IEEE doubles is not represented. A division by zero gives \<open>NaN\<close> or an infinity
  in JavaScript, which have no real value; the functions below return \<open>None\<close> when a
  divisor is zero or when a field that an object lacks is read as a number. Array
  indices, lengths, image sizes and \<open>zIndex\<close> are naturals.
\<close>

definition Math_round :: "real \<Rightarrow> int" where
  \<comment> \<open>\<open>Math.round\<close>: nearest integer, a tie goes to the larger one.\<close>
  "Math_round v = \<lfloor>v + 1 / 2\<rfloor>"

definition Math_trunc :: "real \<Rightarrow> int" where
  \<comment> \<open>rounding toward zero\<close>
  "Math_trunc v = (if 0 \<le> v then \<lfloor>v\<rfloor> else - \<lfloor>- v\<rfloor>)"

definition js_rem :: "real \<Rightarrow> real \<Rightarrow> real" where
  \<comment> \<open>the operator \<open>%\<close> for a non-zero divisor: the remainder takes the sign of the
      dividend (the quotient is truncated toward zero)\<close>
  "js_rem a b = a - b * of_int (Math_trunc (a / b))"

section \<open>Data model of the editor (\<open>src/unnamed/part_004\<close>)\<close>

record crop_rect =
  crop_x :: real
  crop_y :: real
  crop_width :: real
  crop_height :: real

definition fullCrop :: crop_rect where
  "fullCrop = \<lparr>crop_x = 0, crop_y = 0, crop_width = 100, crop_height = 100\<rparr>"

text \<open>
  An image source is a data URL. The URL that \<open>canvas.toDataURL()\<close> returns in
  \<open>commitCrop\<close> is kept symbolically: \<open>CanvasCrop s sx sy sw sh\<close> is the export of a
  canvas of size \<open>sw \<times> sh\<close> onto which the source rectangle at \<open>(sx, sy)\<close> of size
  \<open>sw \<times> sh\<close> of the image decoded from \<open>s\<close> was drawn.
\<close>

datatype imgsrc = DataUrl string | CanvasCrop imgsrc real real real real

text \<open>
  A decoded image (an \<open>Image\<close> element after \<open>onload\<close>, or the image of a texture):
  its natural size, and a name standing for its pixels.
\<close>

record image =
  img_name :: string
  img_width :: nat
  img_height :: nat

text \<open>
  The interface \<open>Sticker\<close>. The field \<open>colorGrading\<close> is left out: no function
  modelled here reads it.
\<close>

record sticker =
  sticker_id :: string
  src :: imgsrc
  originalSrc :: "imgsrc option"
  uvX :: real
  uvY :: real
  scale :: real
  width :: real
  height :: real
  rotation :: real
  aspectRatio :: real
  zIndex :: nat
  crop :: "crop_rect option"

text \<open>
  An element of the state array \<open>stickers\<close>. \<open>bringForward\<close> and \<open>sendBackward\<close>
  spread the spliced element into a new object; when the index is past the end the
  spliced element is \<open>undefined\<close> and the new object \<open>{zIndex: i}\<close> has no other
  field: that object is \<open>ZOnly i\<close>.
\<close>

datatype entry = Full sticker | ZOnly nat

fun entry_id :: "entry \<Rightarrow> string option" where
  "entry_id (Full s) = Some (sticker_id s)"
| "entry_id (ZOnly _) = None"

fun entry_zIndex :: "entry \<Rightarrow> nat" where
  "entry_zIndex (Full s) = zIndex s"
| "entry_zIndex (ZOnly z) = z"

fun with_zIndex :: "nat \<Rightarrow> entry \<Rightarrow> entry" where
  \<comment> \<open>\<open>{ ...s, zIndex: i }\<close>\<close>
  "with_zIndex i (Full s) = Full (s\<lparr>zIndex := i\<rparr>)"
| "with_zIndex i (ZOnly _) = ZOnly i"

text \<open>
  The React state of the component that the stack operations use. A handler is a closure
  of one render: it reads \<open>stickers\<close> and \<open>selectedIndex\<close> of that render (its
  snapshot, the argument \<open>snap\<close> below), while a functional updater
  \<open>setStickers(prev => ...)\<close> is applied to the state current when it runs (the
  argument \<open>cur\<close>).
\<close>

record editor =
  stickers :: "entry list"
  selectedIndex :: "nat option"

datatype js_error = TypeError

section \<open>Sticker stack\<close>

definition reindex :: "entry list \<Rightarrow> entry list" where
  \<comment> \<open>\<open>.map((s, i) => ({ ...s, zIndex: i }))\<close>\<close>
  "reindex xs = map (\<lambda>(i, s). with_zIndex i s) (enumerate 0 xs)"

definition zIndex_is_index :: "entry list \<Rightarrow> bool" where
  \<comment> \<open>every element's \<open>zIndex\<close> is its array index\<close>
  "zIndex_is_index xs = (map entry_zIndex xs = [0..<length xs])"

definition newSticker :: "entry list \<Rightarrow> string \<Rightarrow> imgsrc \<Rightarrow> image \<Rightarrow> sticker" where
  \<comment> \<open>the object built in \<open>img.onload\<close> of \<open>addStickerFromDataUrl\<close>; \<open>snap_stickers\<close>
      is the array \<open>stickers\<close> of the closure, \<open>new_id\<close> the result of \<open>genId()\<close>\<close>
  "newSticker snap_stickers new_id dataUrl img =
     (let aspect = (if img_width img \<noteq> 0 \<and> img_height img \<noteq> 0
                    then real (img_width img) / real (img_height img) else 1);
          sizePx = 100
      in \<lparr>sticker_id = new_id, src = dataUrl, originalSrc = Some dataUrl,
          uvX = 1 / 2, uvY = 1 / 2, scale = 15 / 100,
          width = sizePx, height = of_int (Math_round (sizePx / aspect)),
          rotation = 0, aspectRatio = aspect,
          zIndex = length snap_stickers,
          crop = Some fullCrop\<rparr>)"

definition addStickerFromDataUrl ::
  "editor \<Rightarrow> string \<Rightarrow> imgsrc \<Rightarrow> image option \<Rightarrow> editor \<Rightarrow> editor" where
  \<comment> \<open>\<open>loaded\<close> is \<open>None\<close> when \<open>img.onerror\<close> fires (a warning, no state change)\<close>
  "addStickerFromDataUrl snap new_id dataUrl loaded cur =
     (case loaded of
        None \<Rightarrow> cur
      | Some img \<Rightarrow>
          (let next = stickers cur @ [Full (newSticker (stickers snap) new_id dataUrl img)]
           in cur\<lparr>stickers := next, selectedIndex := Some (length next - 1)\<rparr>))"

text \<open>
  \<open>handleImageUpload\<close> starts one file read per selected file; each read that completes
  calls \<open>addStickerFromDataUrl\<close> of the same render. \<open>reads\<close> lists, in the order in
  which the images finish loading, the generated id, the data URL and the load result.
\<close>

definition handleImageUpload ::
  "editor \<Rightarrow> (string \<times> imgsrc \<times> image option) list \<Rightarrow> editor \<Rightarrow> editor" where
  "handleImageUpload snap reads cur =
     foldl (\<lambda>st (new_id, dataUrl, loaded). addStickerFromDataUrl snap new_id dataUrl loaded st)
       cur reads"

definition removeById :: "string option \<Rightarrow> entry list \<Rightarrow> entry list" where
  \<comment> \<open>\<open>prev.filter(s => s.id !== idToRemove).map((s, i) => ({ ...s, zIndex: i }))\<close>\<close>
  "removeById idToRemove prev = reindex (filter (\<lambda>s. entry_id s \<noteq> idToRemove) prev)"

definition deleteAt :: "editor \<Rightarrow> nat \<Rightarrow> editor \<Rightarrow> js_error + editor" where
  \<comment> \<open>the thumbnail's delete button for index \<open>idx\<close>; reading \<open>.id\<close> of
      \<open>stickers[idx]\<close> past the end throws\<close>
  "deleteAt snap idx cur =
     (if idx < length (stickers snap)
      then Inr (cur\<lparr>stickers := removeById (entry_id (stickers snap ! idx)) (stickers cur),
                     selectedIndex := None\<rparr>)
      else Inl TypeError)"

definition deleteSelected :: "editor \<Rightarrow> editor \<Rightarrow> js_error + editor" where
  "deleteSelected snap cur =
     (case selectedIndex snap of
        None \<Rightarrow> Inr cur
      | Some i \<Rightarrow> deleteAt snap i cur)"

definition moveToEnd :: "nat \<Rightarrow> entry list \<Rightarrow> entry list" where
  \<comment> \<open>the updater of \<open>bringForward\<close>: \<open>splice(i, 1)\<close>, \<open>push(item)\<close>, re-index\<close>
  "moveToEnd i prev =
     (if i < length prev
      then reindex (take i prev @ drop (Suc i) prev @ [prev ! i])
      else reindex prev @ [ZOnly (length prev)])"

definition moveToFront :: "nat \<Rightarrow> entry list \<Rightarrow> entry list" where
  \<comment> \<open>the updater of \<open>sendBackward\<close>: \<open>splice(i, 1)\<close>, \<open>unshift(item)\<close>, re-index\<close>
  "moveToFront i prev =
     (if i < length prev
      then reindex (prev ! i # take i prev @ drop (Suc i) prev)
      else ZOnly 0 # map (\<lambda>(k, s). with_zIndex (Suc k) s) (enumerate 0 prev))"

definition bringForward :: "editor \<Rightarrow> editor \<Rightarrow> editor" where
  "bringForward snap cur =
     (case selectedIndex snap of
        None \<Rightarrow> cur
      | Some i \<Rightarrow>
          cur\<lparr>stickers := moveToEnd i (stickers cur),
              selectedIndex :=
                (if selectedIndex cur \<noteq> None \<and> 0 < length (stickers snap)
                 then Some (length (stickers snap) - 1) else None)\<rparr>)"

definition sendBackward :: "editor \<Rightarrow> editor \<Rightarrow> editor" where
  "sendBackward snap cur =
     (case selectedIndex snap of
        None \<Rightarrow> cur
      | Some i \<Rightarrow> cur\<lparr>stickers := moveToFront i (stickers cur), selectedIndex := Some 0\<rparr>)"

section \<open>Pointer gestures (\<open>onMove\<close> and its helpers)\<close>

record point =
  pt_x :: real
  pt_y :: real

text \<open>The frame's \<open>getBoundingClientRect()\<close>.\<close>

record rect =
  rect_left :: real
  rect_top :: real
  rect_width :: real
  rect_height :: real

definition mapAt :: "nat \<Rightarrow> (sticker \<Rightarrow> sticker) \<Rightarrow> entry list \<Rightarrow> entry list option" where
  \<comment> \<open>\<open>prev.map((s, k) => k === i ? { ...s, field: f(s) } : s)\<close> where \<open>f\<close> reads
      numeric fields of \<open>s\<close>\<close>
  "mapAt i f prev =
     (if i < length prev
      then (case prev ! i of Full s \<Rightarrow> Some (prev[i := Full (f s)]) | ZOnly _ \<Rightarrow> None)
      else Some prev)"

subsection \<open>Dragging\<close>

definition dragged :: "rect \<Rightarrow> point \<Rightarrow> point \<Rightarrow> sticker \<Rightarrow> sticker" where
  "dragged r dragStart coords s =
     (let dx = pt_x coords - pt_x dragStart;
          dy = pt_y coords - pt_y dragStart;
          centerX = uvX s * rect_width r;
          centerY = (1 - uvY s) * rect_height r;
          newCenterX = max 0 (min (rect_width r) (centerX + dx));
          newCenterY = max 0 (min (rect_height r) (centerY + dy))
      in s\<lparr>uvX := newCenterX / rect_width r, uvY := 1 - newCenterY / rect_height r\<rparr>)"

definition onMove_dragging ::
  "rect \<Rightarrow> nat \<Rightarrow> point \<Rightarrow> point \<Rightarrow> entry list \<Rightarrow> (entry list \<times> point) option" where
  \<comment> \<open>the dragging branch of \<open>onMove\<close>: the new array, and the new value of
      \<open>dragStartRef.current\<close>; past the end of the array \<open>prev\<close> is returned\<close>
  "onMove_dragging r selIdx dragStart coords prev =
     (if selIdx < length prev
      then (case prev ! selIdx of
              ZOnly _ \<Rightarrow> None
            | Full s \<Rightarrow>
                if rect_width r = 0 \<or> rect_height r = 0 then None
                else Some (prev[selIdx := Full (dragged r dragStart coords s)], coords))
      else Some (prev, coords))"

subsection \<open>Resizing\<close>

text \<open>\<open>resizeStateRef.current\<close>: the grabbed sticker's id, the grab point, the start size.\<close>

record resizeState =
  rs_id :: string
  rs_x :: real
  rs_y :: real
  rs_width :: real
  rs_height :: real

definition startResize :: "entry list \<Rightarrow> string \<Rightarrow> point \<Rightarrow> resizeState option" where
  \<comment> \<open>\<open>stickers.find(x => x.id === stickerId)\<close>; no state when nothing is found\<close>
  "startResize snap_stickers stickerId coords =
     (case find (\<lambda>x. entry_id x = Some stickerId) snap_stickers of
        Some (Full s) \<Rightarrow> Some \<lparr>rs_id = stickerId, rs_x = pt_x coords, rs_y = pt_y coords,
                               rs_width = width s, rs_height = height s\<rparr>
      | _ \<Rightarrow> None)"

definition resized :: "rect \<Rightarrow> resizeState \<Rightarrow> point \<Rightarrow> sticker \<Rightarrow> sticker" where
  "resized r rs coords s =
     (let dx = pt_x coords - rs_x rs;
          dy = pt_y coords - rs_y rs;
          delta = max dx dy;
          newW = max 24 (of_int (Math_round (rs_width rs + delta)));
          newH = max 24 (of_int (Math_round (rs_height rs + delta / aspectRatio s)));
          biggest = max (rect_width r) (rect_height r);
          relative = min (1 / 2) (max (5 / 100) (newW / biggest))
      in s\<lparr>width := newW, height := newH, scale := relative\<rparr>)"

fun resizeDivides :: "rect \<Rightarrow> resizeState \<Rightarrow> entry \<Rightarrow> bool" where
  \<comment> \<open>no divisor is zero when the element is resized\<close>
  "resizeDivides r rs (Full s) =
     (sticker_id s \<noteq> rs_id rs \<or>
      (aspectRatio s \<noteq> 0 \<and> max (rect_width r) (rect_height r) \<noteq> 0))"
| "resizeDivides r rs (ZOnly _) = True"

fun resizeEntry :: "rect \<Rightarrow> resizeState \<Rightarrow> point \<Rightarrow> entry \<Rightarrow> entry" where
  "resizeEntry r rs coords (Full s) =
     (if sticker_id s \<noteq> rs_id rs then Full s else Full (resized r rs coords s))"
| "resizeEntry r rs coords (ZOnly z) = ZOnly z"

definition onMove_resizing ::
  "rect \<Rightarrow> resizeState \<Rightarrow> point \<Rightarrow> entry list \<Rightarrow> entry list option" where
  \<comment> \<open>the resizing branch of \<open>onMove\<close>: \<open>prev.map(s => s.id !== rs.id ? s : ...)\<close>\<close>
  "onMove_resizing r rs coords prev =
     (if list_all (resizeDivides r rs) prev
      then Some (map (resizeEntry r rs coords) prev) else None)"

subsection \<open>Rotating\<close>

text \<open>
  \<open>rotateStateRef.current\<close>. The angle of a vector in degrees,
  \<open>Math.atan2(y, x) * (180 / Math.PI)\<close>, is a parameter \<open>atan2deg y x\<close> of the functions
  that use it.
\<close>

record rotateState =
  rot_index :: nat
  startAngle :: real
  pointerAngle :: real

definition pointerAngleDeg ::
  "(real \<Rightarrow> real \<Rightarrow> real) \<Rightarrow> rect \<Rightarrow> point \<Rightarrow> sticker \<Rightarrow> real" where
  \<comment> \<open>the angle, in degrees, of the pointer seen from the sticker's center on screen\<close>
  "pointerAngleDeg atan2deg r coords s =
     (let centerX = uvX s * rect_width r + rect_left r;
          centerY = (1 - uvY s) * rect_height r + rect_top r;
          angleDeg = atan2deg (pt_y coords - centerY) (pt_x coords - centerX)
      in angleDeg)"

definition startRotateHandle ::
  "(real \<Rightarrow> real \<Rightarrow> real) \<Rightarrow> rect \<Rightarrow> entry list \<Rightarrow> nat \<Rightarrow> point \<Rightarrow> rotateState option" where
  \<comment> \<open>no state past the end of the array (reading \<open>s.uvX\<close> throws) and for an element
      without fields; \<open>s.rotation || 0\<close> is \<open>s.rotation\<close>\<close>
  "startRotateHandle atan2deg r snap_stickers idx coords =
     (if idx < length snap_stickers
      then (case snap_stickers ! idx of
              Full s \<Rightarrow> Some \<lparr>rot_index = idx, startAngle = rotation s,
                             pointerAngle = pointerAngleDeg atan2deg r coords s\<rparr>
            | ZOnly _ \<Rightarrow> None)
      else None)"

definition onMove_rotating ::
  "(real \<Rightarrow> real \<Rightarrow> real) \<Rightarrow> rect \<Rightarrow> rotateState \<Rightarrow> point \<Rightarrow> entry list
     \<Rightarrow> entry list option" where
  "onMove_rotating atan2deg r st coords prev =
     mapAt (rot_index st)
       (\<lambda>s. let angleDeg = pointerAngleDeg atan2deg r coords s;
                delta = angleDeg - pointerAngle st;
                newRotation = js_rem (startAngle st + delta) 360
            in s\<lparr>rotation := newRotation\<rparr>) prev"

definition rotateSelectedBy :: "nat option \<Rightarrow> real \<Rightarrow> entry list \<Rightarrow> entry list option" where
  "rotateSelectedBy selIdx deg prev =
     (case selIdx of
        None \<Rightarrow> Some prev
      | Some i \<Rightarrow> mapAt i (\<lambda>s. s\<lparr>rotation := js_rem (rotation s + deg) 360\<rparr>) prev)"

datatype direction = TurnLeft | TurnRight

definition rotateSticker :: "nat option \<Rightarrow> direction \<Rightarrow> entry list \<Rightarrow> entry list option" where
  "rotateSticker selIdx dir prev =
     (case selIdx of
        None \<Rightarrow> Some prev
      | Some i \<Rightarrow>
          (let angle = (if dir = TurnLeft then - 15 else 15)
           in mapAt i (\<lambda>s. s\<lparr>rotation := js_rem (rotation s + angle) 360\<rparr>) prev))"

section \<open>Crop commit\<close>

fun exportSize :: "imgsrc \<Rightarrow> (nat \<times> nat) option" where
  \<comment> \<open>the pixel size of a canvas export: \<open>canvas.width = cropW\<close> keeps the integer part\<close>
  "exportSize (CanvasCrop s sx sy sw sh) = Some (nat (Math_trunc sw), nat (Math_trunc sh))"
| "exportSize (DataUrl _) = None"

definition cropAspect :: "real \<Rightarrow> real \<Rightarrow> sticker \<Rightarrow> real option" where
  \<comment> \<open>\<open>(cropW / cropH) || x.aspectRatio\<close>: \<open>0\<close> and \<open>NaN\<close> (\<open>0 / 0\<close>) fall back to the old
      ratio, an infinite quotient is kept\<close>
  "cropAspect cropW cropH x =
     (if cropH = 0 then (if cropW = 0 then Some (aspectRatio x) else None)
      else if cropW / cropH = 0 then Some (aspectRatio x)
      else Some (cropW / cropH))"

definition cropped :: "imgsrc \<Rightarrow> real \<Rightarrow> sticker \<Rightarrow> sticker" where
  "cropped dataUrl aspect x =
     x\<lparr>src := dataUrl,
       aspectRatio := aspect,
       width := of_int (Math_round (width x)),
       height := of_int (Math_round (width x / aspect)),
       crop := Some fullCrop\<rparr>"

definition applyCrop :: "nat \<Rightarrow> imgsrc \<Rightarrow> real \<Rightarrow> real \<Rightarrow> entry list \<Rightarrow> entry list option" where
  \<comment> \<open>the updater \<open>prev.map((x, i) => i === idx ? {...} : x)\<close> of \<open>commitCrop\<close>\<close>
  "applyCrop idx dataUrl cropW cropH prev =
     (if idx < length prev
      then (case prev ! idx of
              ZOnly _ \<Rightarrow> None
            | Full x \<Rightarrow>
                (case cropAspect cropW cropH x of
                   None \<Rightarrow> None
                 | Some aspect \<Rightarrow>
                     if aspect = 0 then None
                     else Some (prev[idx := Full (cropped dataUrl aspect x)])))
      else Some prev)"

definition commitCrop ::
  "entry list \<Rightarrow> nat \<Rightarrow> image option \<Rightarrow> bool \<Rightarrow> entry list \<Rightarrow> entry list option" where
  \<comment> \<open>\<open>snap_stickers\<close> is the array of the closure; \<open>loaded\<close> is the result of loading
      \<open>s.src\<close> (\<open>None\<close>: \<open>onerror\<close>, a warning); \<open>has_ctx\<close> tells whether
      \<open>getContext('2d')\<close> returned a context. The result is the state array after the
      commit, given the array \<open>prev\<close> current when the updater runs.\<close>
  "commitCrop snap_stickers idx loaded has_ctx prev =
     (if idx < length snap_stickers then
        (case snap_stickers ! idx of
           ZOnly _ \<Rightarrow> Some prev
         | Full s \<Rightarrow>
             (case crop s of
                None \<Rightarrow> Some prev
              | Some c \<Rightarrow>
                  if crop_x c = 0 \<and> crop_y c = 0 \<and> crop_width c = 100 \<and> crop_height c = 100
                  then Some prev
                  else
                    (case loaded of
                       None \<Rightarrow> Some prev
                     | Some img \<Rightarrow>
                         (let cropX = crop_x c / 100 * real (img_width img);
                              cropY = crop_y c / 100 * real (img_height img);
                              cropW = crop_width c / 100 * real (img_width img);
                              cropH = crop_height c / 100 * real (img_height img)
                          in if \<not> has_ctx then Some prev
                             else applyCrop idx (CanvasCrop (src s) cropX cropY cropW cropH)
                                    cropW cropH prev))))
      else Some prev)"

subsection \<open>The crop gesture\<close>

text \<open>
  \<open>cropStateRef.current\<close>: the grabbed handle (one of the names \<open>nw\<close>, \<open>ne\<close>,
  \<open>sw\<close>, \<open>se\<close>, \<open>n\<close>, \<open>s\<close>, \<open>e\<close>, \<open>w\<close>, or \<open>null\<close>), the pointer position at
  the grab and the sticker's crop at the grab.
\<close>

record cropState =
  cs_handle :: "string option"
  cs_startX :: real
  cs_startY :: real
  cs_crop :: crop_rect

definition handleCropMouseDown :: "editor \<Rightarrow> string option \<Rightarrow> point \<Rightarrow> cropState option" where
  \<comment> \<open>\<open>None\<close>: the handler returns before \<open>setIsCropping(true)\<close>; an element without
      a \<open>crop\<close> field starts from the full-image rectangle\<close>
  "handleCropMouseDown snap handle client =
     (case selectedIndex snap of
        None \<Rightarrow> None
      | Some i \<Rightarrow>
          if i < length (stickers snap)
          then Some \<lparr>cs_handle = handle, cs_startX = pt_x client, cs_startY = pt_y client,
                     cs_crop = (case stickers snap ! i of
                                  Full s \<Rightarrow> (case crop s of Some c \<Rightarrow> c | None \<Rightarrow> fullCrop)
                                | ZOnly _ \<Rightarrow> fullCrop)\<rparr>
          else None)"

definition draggedCrop :: "rect \<Rightarrow> cropState \<Rightarrow> point \<Rightarrow> crop_rect" where
  \<comment> \<open>\<open>newCrop\<close> in \<open>onMove\<close> of the crop effect; \<open>r\<close> is the thumbnail's rectangle\<close>
  "draggedCrop r cs client =
     (let deltaX = (pt_x client - cs_startX cs) / rect_width r * 100;
          deltaY = (pt_y client - cs_startY cs) / rect_height r * 100;
          c = cs_crop cs;
          cHandle = (case cs_handle cs of None \<Rightarrow> ''se'' | Some h \<Rightarrow> h);
          c1 = (if CHR ''n'' \<in> set cHandle
                then (let y = max 0 (min (crop_y c + deltaY) (crop_y c + crop_height c - 5))
                      in c\<lparr>crop_y := y, crop_height := crop_height c - (y - crop_y c)\<rparr>)
                else c);
          c2 = (if CHR ''s'' \<in> set cHandle
                then c1\<lparr>crop_height := max 5 (min (100 - crop_y c) (crop_height c + deltaY))\<rparr>
                else c1);
          c3 = (if CHR ''w'' \<in> set cHandle
                then (let x = max 0 (min (crop_x c + deltaX) (crop_x c + crop_width c - 5))
                      in c2\<lparr>crop_x := x, crop_width := crop_width c - (x - crop_x c)\<rparr>)
                else c2);
          c4 = (if CHR ''e'' \<in> set cHandle
                then c3\<lparr>crop_width := max 5 (min (100 - crop_x c) (crop_width c + deltaX))\<rparr>
                else c3)
      in c4)"

definition crop_onMove ::
  "rect \<Rightarrow> cropState \<Rightarrow> nat \<Rightarrow> point \<Rightarrow> entry list \<Rightarrow> entry list option" where
  \<comment> \<open>\<open>setStickers(prev => prev.map((s, i) => i === selectedIndex ? {...s, crop: newCrop} : s))\<close>;
      \<open>None\<close> also for an element without sticker fields, which would gain a \<open>crop\<close>\<close>
  "crop_onMove r cs selIdx client prev =
     (if selIdx < length prev
      then (case prev ! selIdx of
              ZOnly _ \<Rightarrow> None
            | Full s \<Rightarrow>
                if rect_width r = 0 \<or> rect_height r = 0 then None
                else Some (prev[selIdx := Full (s\<lparr>crop := Some (draggedCrop r cs client)\<rparr>)]))
      else Some prev)"

fun crop_onMoves ::
  "rect \<Rightarrow> cropState \<Rightarrow> nat \<Rightarrow> point list \<Rightarrow> entry list \<Rightarrow> entry list option" where
  "crop_onMoves r cs selIdx [] prev = Some prev"
| "crop_onMoves r cs selIdx (client # rest) prev =
     (case crop_onMove r cs selIdx client prev of
        None \<Rightarrow> None
      | Some moved \<Rightarrow> crop_onMoves r cs selIdx rest moved)"

text \<open>
  One crop gesture, from the mouse-down on a crop control in the state \<open>e\<close> to the
  mouse-up. The effect that installs \<open>onMove\<close> and \<open>onUp\<close> runs after the render that
  follows \<open>setIsCropping(true)\<close>, whose \<open>stickers\<close> is the array of the mouse-down. Its
  dependencies are \<open>isCropping\<close>, \<open>selectedIndex\<close> and the thumbnail element, not
  \<open>stickers\<close>, so the renders that the moves cause do not install it again: the
  \<open>onUp\<close> that runs at the release calls the \<open>commitCrop\<close> of that render, on that
  array. \<open>thumbnail\<close> is the rectangle of the selected thumbnail (\<open>None\<close>: no
  thumbnail, no listener), \<open>moves\<close> are the pointer positions of the mouse-move events,
  \<open>loaded\<close> and \<open>has_ctx\<close> are as for \<open>commitCrop\<close>.
\<close>

definition cropGesture ::
  "editor \<Rightarrow> string option \<Rightarrow> point \<Rightarrow> rect option \<Rightarrow> point list \<Rightarrow> image option \<Rightarrow> bool
     \<Rightarrow> entry list option" where
  "cropGesture e handle down thumbnail moves loaded has_ctx =
     (case handleCropMouseDown e handle down of
        None \<Rightarrow> Some (stickers e)
      | Some cs \<Rightarrow>
          (case selectedIndex e of
             None \<Rightarrow> Some (stickers e)
           | Some i \<Rightarrow>
               (case thumbnail of
                  None \<Rightarrow> Some (stickers e)
                | Some r \<Rightarrow>
                    (case crop_onMoves r cs i moves (stickers e) of
                       None \<Rightarrow> None
                     | Some dragged_stickers \<Rightarrow>
                         commitCrop (stickers e) i loaded has_ctx dragged_stickers))))"

section \<open>Bake pipeline (\<open>src/unnamed/part_009\<close>)\<close>

text \<open>
  The interface \<open>StickerForScene\<close> and the array \<open>stickerPropsForScene\<close> that the
  editor passes to the scene: the stickers in array order, without \<open>zIndex\<close>.
\<close>

record stickerForScene =
  fs_src :: imgsrc
  fs_uvX :: real
  fs_uvY :: real
  fs_scale :: real
  fs_rotation :: "real option"
  fs_aspectRatio :: "real option"

definition sceneSticker :: "sticker \<Rightarrow> stickerForScene" where
  "sceneSticker s =
     \<lparr>fs_src = src s, fs_uvX = uvX s, fs_uvY = uvY s, fs_scale = scale s,
      fs_rotation = Some (rotation s), fs_aspectRatio = Some (aspectRatio s)\<rparr>"

definition stickerPropsForScene :: "sticker list \<Rightarrow> stickerForScene list" where
  "stickerPropsForScene ss = map sceneSticker ss"

text \<open>
  The 2D canvas of one bake is the list of the drawing calls made on its context, oldest
  first. \<open>FillRect c w h\<close> is \<open>fillStyle = c; fillRect(0, 0, w, h)\<close> for a valid CSS
  color \<open>c\<close>; \<open>DrawBase img w h\<close> is \<open>drawImage(img, 0, 0, w, h)\<close>;
  \<open>DrawSticker img cx cy deg w h\<close> is the sequence \<open>save\<close>, \<open>translate(cx, cy)\<close>,
  \<open>rotate(deg * Math.PI / 180)\<close>, \<open>drawImage(img, -w/2, -h/2, w, h)\<close>, \<open>restore\<close>.
\<close>

datatype drawOp =
    FillRect string nat nat
  | DrawBase image nat nat
  | DrawSticker image real real real real real

record canvas =
  canvas_width :: nat
  canvas_height :: nat
  ops :: "drawOp list"

text \<open>
  A texture of the loader with its \<open>image\<close>, or the \<open>CanvasTexture\<close> of a bake with
  its \<open>colorSpace\<close>, \<open>flipY\<close> and \<open>needsUpdate\<close>.
\<close>

datatype texture =
    Texture string "image option"
  | CanvasTexture canvas string bool bool

fun texture_image :: "texture \<Rightarrow> image option" where
  "texture_image (Texture _ img) = img"
| "texture_image (CanvasTexture c _ _ _) =
     Some \<lparr>img_name = ''canvas'', img_width = canvas_width c, img_height = canvas_height c\<rparr>"

text \<open>A \<open>THREE.Color\<close>, written as its CSS style.\<close>

datatype color = Color string

fun getStyle :: "color \<Rightarrow> string" where
  "getStyle (Color c) = c"

record originalMaps =
  o_map :: "texture option"
  o_normalMap :: "texture option"
  o_roughnessMap :: "texture option"
  o_metalnessMap :: "texture option"
  o_aoMap :: "texture option"
  o_emissiveMap :: "texture option"
  o_color :: color

record material =
  m_map :: "texture option"
  m_normalMap :: "texture option"
  m_roughnessMap :: "texture option"
  m_metalnessMap :: "texture option"
  m_aoMap :: "texture option"
  m_emissiveMap :: "texture option"
  m_color :: "color option"
  m_needsUpdate :: bool

definition storeOriginalMaps :: "material \<Rightarrow> originalMaps" where
  \<comment> \<open>the snapshot taken in the loader's callback\<close>
  "storeOriginalMaps mat =
     \<lparr>o_map = m_map mat, o_normalMap = m_normalMap mat,
      o_roughnessMap = m_roughnessMap mat, o_metalnessMap = m_metalnessMap mat,
      o_aoMap = m_aoMap mat, o_emissiveMap = m_emissiveMap mat,
      o_color = (case m_color mat of Some c \<Rightarrow> c | None \<Rightarrow> Color ''#ffffff'')\<rparr>"

subsection \<open>Canvas size and background\<close>

definition baseImage :: "originalMaps \<Rightarrow> image option" where
  \<comment> \<open>\<open>stored.map?.image\<close>\<close>
  "baseImage stored = (case o_map stored of None \<Rightarrow> None | Some t \<Rightarrow> texture_image t)"

definition texWidth :: "originalMaps \<Rightarrow> nat" where
  "texWidth stored =
     (case baseImage stored of
        Some b \<Rightarrow> if img_width b \<noteq> 0 then img_width b else 2048
      | None \<Rightarrow> 2048)"

definition texHeight :: "originalMaps \<Rightarrow> nat" where
  "texHeight stored =
     (case baseImage stored of
        Some b \<Rightarrow> if img_height b \<noteq> 0 then img_height b else texWidth stored
      | None \<Rightarrow> texWidth stored)"

definition isCustomColor :: "string \<Rightarrow> bool" where
  \<comment> \<open>\<open>modelColor && modelColor !== 'reset' && modelColor !== 'original'\<close>\<close>
  "isCustomColor modelColor =
     (modelColor \<noteq> '''' \<and> modelColor \<noteq> ''reset'' \<and> modelColor \<noteq> ''original'')"

definition background :: "bool \<Rightarrow> originalMaps \<Rightarrow> string \<Rightarrow> drawOp list" where
  \<comment> \<open>\<open>base_draws\<close> is false when \<open>drawImage\<close> of the base image throws\<close>
  "background base_draws stored modelColor =
     (if isCustomColor modelColor
      then [FillRect modelColor (texWidth stored) (texHeight stored)]
      else (case baseImage stored of
              Some b \<Rightarrow>
                if base_draws then [DrawBase b (texWidth stored) (texHeight stored)]
                else [FillRect (getStyle (o_color stored)) (texWidth stored) (texHeight stored)]
            | None \<Rightarrow>
                [FillRect (getStyle (o_color stored)) (texWidth stored) (texHeight stored)]))"

subsection \<open>Drawing the stickers\<close>

definition sizeFor :: "real \<Rightarrow> real \<Rightarrow> real \<times> real" where
  \<comment> \<open>\<open>(stickerW, stickerH)\<close> for a finite aspect\<close>
  "sizeFor baseSize aspect =
     (if aspect > 1 then (baseSize, baseSize / aspect) else (baseSize * aspect, baseSize))"

definition stickerSize :: "real \<Rightarrow> real option \<Rightarrow> image \<Rightarrow> real \<times> real" where
  \<comment> \<open>\<open>aspect = sticker.aspectRatio ?? ((img.width / img.height) || 1)\<close>; for an image
      of height \<open>0\<close> and positive width the quotient is infinite and \<open>stickerH\<close> is
      \<open>0\<close>\<close>
  "stickerSize baseSize aspectRatio_opt img =
     (case aspectRatio_opt of
        Some a \<Rightarrow> sizeFor baseSize a
      | None \<Rightarrow>
          if img_height img = 0
          then (if img_width img = 0 then sizeFor baseSize 1 else (baseSize, 0))
          else if img_width img = 0 then sizeFor baseSize 1
          else sizeFor baseSize (real (img_width img) / real (img_height img)))"

definition stickerOp :: "nat \<Rightarrow> nat \<Rightarrow> stickerForScene \<Rightarrow> image \<Rightarrow> drawOp" where
  \<comment> \<open>the drawing done by \<open>img.onload\<close> in \<open>drawSticker\<close>\<close>
  "stickerOp texW texH sticker img =
     (let baseSize = fs_scale sticker * real (max texW texH);
          (stickerW, stickerH) = stickerSize baseSize (fs_aspectRatio sticker) img;
          x = fs_uvX sticker * real texW - stickerW / 2;
          y = (1 - fs_uvY sticker) * real texH - stickerH / 2;
          cx = x + stickerW / 2;
          cy = y + stickerH / 2;
          deg = (case fs_rotation sticker of Some d \<Rightarrow> d | None \<Rightarrow> 0)
      in DrawSticker img cx cy deg stickerW stickerH)"

datatype warning = StickerFailedToLoad imgsrc

text \<open>
  \<open>decode\<close> tells, for a source, whether its image loads (\<open>onload\<close>, with the image)
  or not (\<open>onerror\<close>). The state threaded through the loop is the list of drawing calls
  and the console warnings.
\<close>

definition drawSticker ::
  "(imgsrc \<Rightarrow> image option) \<Rightarrow> nat \<Rightarrow> nat \<Rightarrow> stickerForScene
     \<Rightarrow> drawOp list \<times> warning list \<Rightarrow> drawOp list \<times> warning list" where
  "drawSticker decode texW texH sticker st =
     (case decode (fs_src sticker) of
        Some img \<Rightarrow> (fst st @ [stickerOp texW texH sticker img], snd st)
      | None \<Rightarrow> (fst st, snd st @ [StickerFailedToLoad (fs_src sticker)]))"

text \<open>
  The loop \<open>for (i = 0; i < stickers.length; i++) await drawSticker(stickers[i])\<close>: each
  promise resolves after its image has loaded and been drawn, or has failed, and the next
  iteration starts after that.
\<close>

fun drawAll ::
  "(imgsrc \<Rightarrow> image option) \<Rightarrow> nat \<Rightarrow> nat \<Rightarrow> stickerForScene list
     \<Rightarrow> drawOp list \<times> warning list \<Rightarrow> drawOp list \<times> warning list" where
  "drawAll decode texW texH [] st = st"
| "drawAll decode texW texH (sticker # rest) st =
     drawAll decode texW texH rest (drawSticker decode texW texH sticker st)"

definition bakeCanvas ::
  "(imgsrc \<Rightarrow> image option) \<Rightarrow> bool \<Rightarrow> originalMaps \<Rightarrow> string \<Rightarrow> stickerForScene list
     \<Rightarrow> canvas \<times> warning list" where
  "bakeCanvas decode base_draws stored modelColor scene_stickers =
     (let st = drawAll decode (texWidth stored) (texHeight stored) scene_stickers
                 (background base_draws stored modelColor, [])
      in (\<lparr>canvas_width = texWidth stored, canvas_height = texHeight stored, ops = fst st\<rparr>,
          snd st))"

subsection \<open>Assigning the composite\<close>

definition bakeMesh ::
  "(imgsrc \<Rightarrow> image option) \<Rightarrow> bool \<Rightarrow> bool \<Rightarrow> originalMaps option \<Rightarrow> string
     \<Rightarrow> stickerForScene list \<Rightarrow> material \<Rightarrow> (material \<times> warning list) option" where
  \<comment> \<open>one mesh of the bake effect: \<open>None\<close> when the mesh has no snapshot or no 2D context
      (the callback returns, the material stays as it is), else the material after the
      asynchronous part has finished, and the warnings\<close>
  "bakeMesh decode has_ctx base_draws stored_opt modelColor scene_stickers mat =
     (case stored_opt of
        None \<Rightarrow> None
      | Some stored \<Rightarrow>
          if \<not> has_ctx then None
          else
            (let (cv, warnings) = bakeCanvas decode base_draws stored modelColor scene_stickers;
                 composite = CanvasTexture cv ''srgb'' False True
             in Some (mat\<lparr>m_map := Some composite,
                          m_normalMap := o_normalMap stored,
                          m_roughnessMap := o_roughnessMap stored,
                          m_metalnessMap := o_metalnessMap stored,
                          m_aoMap := o_aoMap stored,
                          m_emissiveMap := o_emissiveMap stored,
                          m_color := Some (Color ''#ffffff''),
                          m_needsUpdate := True\<rparr>, warnings)))"

definition resetRestore :: "originalMaps option \<Rightarrow> string \<Rightarrow> material \<Rightarrow> material" where
  \<comment> \<open>one mesh of the effect that restores the originals when \<open>modelColor === 'reset'\<close>\<close>
  "resetRestore stored_opt modelColor mat =
     (if modelColor = ''reset''
      then (case stored_opt of
              None \<Rightarrow> mat
            | Some stored \<Rightarrow>
                mat\<lparr>m_map := o_map stored,
                    m_normalMap := o_normalMap stored,
                    m_roughnessMap := o_roughnessMap stored,
                    m_metalnessMap := o_metalnessMap stored,
                    m_aoMap := o_aoMap stored,
                    m_emissiveMap := o_emissiveMap stored,
                    m_color := Some (o_color stored),
                    m_needsUpdate := True\<rparr>)
      else mat)"

subsection \<open>Pixels of a canvas\<close>

text \<open>
  What a pixel shows after a list of drawing calls. \<open>fillRect\<close> covers the rectangle it
  names. Which pixels an image drawn at a position, size and angle covers, and with which
  color, is a parameter \<open>raster\<close> (\<open>None\<close>: not covered); a covering pixel replaces
  what was there, as an opaque pixel does under the default \<open>source-over\<close> compositing.
\<close>

type_synonym pixel = "nat \<times> nat"

fun opPixel :: "(drawOp \<Rightarrow> pixel \<Rightarrow> string option) \<Rightarrow> drawOp \<Rightarrow> pixel \<Rightarrow> string option" where
  "opPixel raster (FillRect c w h) p = (if fst p < w \<and> snd p < h then Some c else None)"
| "opPixel raster (DrawBase img w h) p = raster (DrawBase img w h) p"
| "opPixel raster (DrawSticker img cx cy deg w h) p = raster (DrawSticker img cx cy deg w h) p"

fun paint ::
  "(drawOp \<Rightarrow> pixel \<Rightarrow> string option) \<Rightarrow> drawOp list \<Rightarrow> string option \<Rightarrow> pixel
     \<Rightarrow> string option" where
  "paint raster [] below p = below"
| "paint raster (op # rest) below p =
     paint raster rest (case opPixel raster op p of Some c \<Rightarrow> Some c | None \<Rightarrow> below) p"

definition pixelOf :: "(drawOp \<Rightarrow> pixel \<Rightarrow> string option) \<Rightarrow> canvas \<Rightarrow> pixel \<Rightarrow> string option" where
  \<comment> \<open>a new canvas is transparent\<close>
  "pixelOf raster cv p = paint raster (ops cv) None p"

section \<open>Example inputs\<close>

definition emptyEditor :: editor where
  "emptyEditor = \<lparr>stickers = [], selectedIndex = None\<rparr>"

definition photo :: "string \<Rightarrow> image" where
  "photo url = \<lparr>img_name = url, img_width = 400, img_height = 200\<rparr>"

definition twoFiles :: "(string \<times> imgsrc \<times> image option) list" where
  "twoFiles = [(''id1'', DataUrl ''a.png'', Some (photo ''a.png'')),
               (''id2'', DataUrl ''b.png'', Some (photo ''b.png''))]"

definition sampleSticker :: sticker where
  \<comment> \<open>the sticker that uploading a 400x200 image onto an empty stack creates\<close>
  "sampleSticker = newSticker [] ''id1'' (DataUrl ''a.png'') (photo ''a.png'')"

definition frame360 :: rect where
  "frame360 = \<lparr>rect_left = 20, rect_top = 40, rect_width = 360, rect_height = 360\<rparr>"

definition p100 :: point where "p100 = \<lparr>pt_x = 100, pt_y = 100\<rparr>"

definition p110 :: point where "p110 = \<lparr>pt_x = 110, pt_y = 95\<rparr>"

definition rotationAt :: "nat \<Rightarrow> entry list option \<Rightarrow> real option" where
  "rotationAt i res =
     (case res of
        None \<Rightarrow> None
      | Some xs \<Rightarrow> (if i < length xs
                    then (case xs ! i of Full s \<Rightarrow> Some (rotation s) | ZOnly _ \<Rightarrow> None)
                    else None))"

definition sticker350 :: sticker where
  "sticker350 = sampleSticker\<lparr>rotation := 350\<rparr>"

definition grabbed :: rotateState where
  "grabbed = \<lparr>rot_index = 0, startAngle = 350, pointerAngle = 25\<rparr>"

definition grab200 :: resizeState where
  "grab200 = \<lparr>rs_id = ''id1'', rs_x = 200, rs_y = 200, rs_width = 100, rs_height = 50\<rparr>"

definition p110_110 :: point where "p110_110 = \<lparr>pt_x = 110, pt_y = 110\<rparr>"

definition p230_210 :: point where "p230_210 = \<lparr>pt_x = 230, pt_y = 210\<rparr>"

definition halfCrop :: crop_rect where
  "halfCrop = \<lparr>crop_x = 25, crop_y = 25, crop_width = 50, crop_height = 50\<rparr>"

definition halfCropped :: sticker where
  "halfCropped = sampleSticker\<lparr>crop := Some halfCrop\<rparr>"

definition wide :: image where
  "wide = \<lparr>img_name = ''a.png'', img_width = 200, img_height = 100\<rparr>"

definition committed :: sticker where
  "committed = halfCropped\<lparr>src := CanvasCrop (DataUrl ''a.png'') 50 25 100 50,
     aspectRatio := 2, width := 100, height := 50, crop := Some fullCrop\<rparr>"

definition decodeByName :: "imgsrc \<Rightarrow> image option" where
  "decodeByName s =
     (case s of
        DataUrl u \<Rightarrow> if u = ''broken.png'' then None else Some (photo u)
      | CanvasCrop _ _ _ _ _ \<Rightarrow> None)"

definition boxRaster :: "drawOp \<Rightarrow> pixel \<Rightarrow> string option" where
  "boxRaster op p =
     (case op of
        FillRect c w h \<Rightarrow> None
      | DrawBase img w h \<Rightarrow> if fst p < w \<and> snd p < h then Some (img_name img) else None
      | DrawSticker img cx cy deg w h \<Rightarrow>
          if cx - w / 2 \<le> real (fst p) \<and> real (fst p) < cx + w / 2
             \<and> cy - h / 2 \<le> real (snd p) \<and> real (snd p) < cy + h / 2
          then Some (img_name img) else None)"

definition baseTexture :: texture where
  "baseTexture = Texture ''color'' (Some \<lparr>img_name = ''base.png'', img_width = 1024, img_height = 512\<rparr>)"

definition garment :: material where
  "garment = \<lparr>m_map = Some baseTexture, m_normalMap = Some (Texture ''normal'' None),
     m_roughnessMap = Some (Texture ''roughness'' None), m_metalnessMap = None,
     m_aoMap = None, m_emissiveMap = None,
     m_color = Some (Color ''rgb(200,10,10)''), m_needsUpdate = False\<rparr>"

definition garmentMaps :: originalMaps where
  "garmentMaps = storeOriginalMaps garment"

definition plainMaps :: originalMaps where
  "plainMaps = garmentMaps\<lparr>o_map := None\<rparr>"

definition stickerA :: stickerForScene where
  "stickerA = sceneSticker sampleSticker"

definition stickerB :: stickerForScene where
  "stickerB = sceneSticker (sampleSticker\<lparr>sticker_id := ''id2'', src := DataUrl ''b.png'', zIndex := 1\<rparr>)"

definition brokenSticker :: stickerForScene where
  "brokenSticker = sceneSticker (sampleSticker\<lparr>src := DataUrl ''broken.png''\<rparr>)"

definition bakedGarment :: material where
  "bakedGarment = garment\<lparr>m_map := Some (CanvasTexture
       (fst (bakeCanvas decodeByName True garmentMaps ''#ff0000'' [stickerA])) ''srgb'' False True),
     m_color := Some (Color ''#ffffff''), m_needsUpdate := True\<rparr>"

definition selectedOne :: editor where
  \<comment> \<open>one freshly uploaded sticker, selected\<close>
  "selectedOne = \<lparr>stickers = [Full sampleSticker], selectedIndex = Some 0\<rparr>"

definition thumb64 :: rect where
  "thumb64 = \<lparr>rect_left = 0, rect_top = 0, rect_width = 64, rect_height = 64\<rparr>"

definition cropDown :: point where "cropDown = \<lparr>pt_x = 200, pt_y = 300\<rparr>"

definition cropMove :: point where "cropMove = \<lparr>pt_x = 200 - 32 / 5, pt_y = 300 - 16 / 5\<rparr>"

definition crop90 :: crop_rect where
  "crop90 = \<lparr>crop_x = 0, crop_y = 0, crop_width = 90, crop_height = 95\<rparr>"

definition crop80 :: crop_rect where
  "crop80 = \<lparr>crop_x = 0, crop_y = 0, crop_width = 80, crop_height = 90\<rparr>"

definition afterFirstGesture :: editor where
  "afterFirstGesture
     = \<lparr>stickers = [Full (sampleSticker\<lparr>crop := Some crop90\<rparr>)], selectedIndex = Some 0\<rparr>"

section \<open>Sticker stack: removal and reordering re-derive every \<open>zIndex\<close>\<close>

lemma zIndex_with_zIndex: "entry_zIndex (with_zIndex i e) = i"
  by (cases e) simp_all

lemma zIndex_reindex_from:
  "map entry_zIndex (map (\<lambda>(i, s). with_zIndex i s) (enumerate n xs)) = [n..<n + length xs]"
proof (induction xs arbitrary: n)
  case Nil
  show ?case by simp
next
  case (Cons x xs)
  have "[n..<Suc (n + length xs)] = n # [Suc n..<Suc (n + length xs)]"
    by (rule upt_conv_Cons) simp
  with Cons [of "Suc n"] show ?case
    by (simp add: zIndex_with_zIndex del: upt_Suc)
qed

lemma length_reindex: "length (reindex xs) = length xs"
  by (simp add: reindex_def)

lemma reindex_zIndex_is_index: "zIndex_is_index (reindex xs)"
  using zIndex_reindex_from [of 0 xs]
  by (simp add: zIndex_is_index_def reindex_def)

lemma removeById_zIndex_is_index: "zIndex_is_index (removeById i prev)"
  by (simp add: removeById_def reindex_zIndex_is_index)

lemma moveToEnd_zIndex_is_index: "zIndex_is_index (moveToEnd i prev)"
proof (cases "i < length prev")
  case True
  then show ?thesis
    by (simp add: moveToEnd_def reindex_zIndex_is_index)
next
  case False
  have "zIndex_is_index (reindex prev)"
    by (rule reindex_zIndex_is_index)
  then have "map entry_zIndex (reindex prev @ [ZOnly (length prev)]) = [0..<Suc (length prev)]"
    by (simp add: zIndex_is_index_def length_reindex)
  with False show ?thesis
    by (simp add: moveToEnd_def zIndex_is_index_def length_reindex)
qed

lemma moveToFront_zIndex_is_index: "zIndex_is_index (moveToFront i prev)"
proof (cases "i < length prev")
  case True
  then show ?thesis
    by (simp add: moveToFront_def reindex_zIndex_is_index)
next
  case False
  have shifted: "map entry_zIndex (map (\<lambda>(k, s). with_zIndex (Suc k) s) (enumerate m prev))
        = [Suc m..<Suc m + length prev]" for m
  proof (induction prev arbitrary: m)
    case Nil
    show ?case by simp
  next
    case (Cons x xs)
    have "[Suc m..<Suc (Suc (m + length xs))]
          = Suc m # [Suc (Suc m)..<Suc (Suc (m + length xs))]"
      by (rule upt_conv_Cons) simp
    with Cons [of "Suc m"] show ?case
      by (simp add: zIndex_with_zIndex del: upt_Suc)
  qed
  have "[0..<Suc (length prev)] = 0 # [Suc 0..<Suc (length prev)]"
    by (rule upt_conv_Cons) simp
  with shifted [of 0] False show ?thesis
    by (simp add: moveToFront_def zIndex_is_index_def del: upt_Suc)
qed

lemma deleteAt_zIndex_is_index:
  "deleteAt snap idx cur = Inr next \<Longrightarrow> zIndex_is_index (stickers next)"
  by (auto simp: deleteAt_def removeById_zIndex_is_index split: if_splits)

lemma bringForward_zIndex_is_index:
  "selectedIndex snap = Some i \<Longrightarrow> zIndex_is_index (stickers (bringForward snap cur))"
  by (simp add: bringForward_def moveToEnd_zIndex_is_index)

lemma sendBackward_zIndex_is_index:
  "selectedIndex snap = Some i \<Longrightarrow> zIndex_is_index (stickers (sendBackward snap cur))"
  by (simp add: sendBackward_def moveToFront_zIndex_is_index)

text \<open>
  An add keeps the invariant when the closure's array is as long as the current one, which
  is the case for a single upload handled by the latest render.
\<close>

lemma addSticker_zIndex_is_index:
  assumes "zIndex_is_index (stickers cur)"
    and "length (stickers snap) = length (stickers cur)"
  shows "zIndex_is_index (stickers (addStickerFromDataUrl snap new_id dataUrl (Some img) cur))"
  using assms
  by (simp add: addStickerFromDataUrl_def zIndex_is_index_def newSticker_def Let_def)

text \<open>
  C1. After every add, remove and reorder each sticker's \<open>zIndex\<close> should be its array
  index, also when one upload adds several stickers. The removals and the reorderings
  re-index the whole array (lemmas above). The add does not: it stamps the new sticker
  with the length of the array of its closure. Two files chosen in one upload on an empty
  stack are both added by the handler of the same render, so both get \<open>zIndex = 0\<close>:
  the second sticker sits at index 1 with \<open>zIndex\<close> 0 and the invariant is broken.
\<close>

theorem handleImageUpload_two_files_same_zIndex:
  "map entry_zIndex (stickers (handleImageUpload emptyEditor twoFiles emptyEditor)) = [0, 0]
   \<and> length (stickers (handleImageUpload emptyEditor twoFiles emptyEditor)) = 2
   \<and> \<not> zIndex_is_index (stickers (handleImageUpload emptyEditor twoFiles emptyEditor))"
  by (simp add: handleImageUpload_def twoFiles_def emptyEditor_def addStickerFromDataUrl_def
      newSticker_def zIndex_is_index_def Let_def)

section \<open>Properties of the remainder\<close>

lemma floor_rem_bounds:
  fixes a b :: real
  assumes "0 < b"
  shows "0 \<le> a - b * of_int \<lfloor>a / b\<rfloor>" and "a - b * of_int \<lfloor>a / b\<rfloor> < b"
proof -
  have "b * of_int \<lfloor>a / b\<rfloor> \<le> b * (a / b)"
    using assms by (intro mult_left_mono of_int_floor_le) simp
  then have "b * of_int \<lfloor>a / b\<rfloor> \<le> a"
    using assms by simp
  then show "0 \<le> a - b * of_int \<lfloor>a / b\<rfloor>"
    by simp
  have "a / b < of_int \<lfloor>a / b\<rfloor> + 1"
    by linarith
  then have "b * (a / b) < b * (of_int \<lfloor>a / b\<rfloor> + 1)"
    using assms by (intro mult_strict_left_mono)
  then have "a < b * (of_int \<lfloor>a / b\<rfloor> + 1)"
    using assms by simp
  then show "a - b * of_int \<lfloor>a / b\<rfloor> < b"
    by (simp add: algebra_simps)
qed

lemma js_rem_of_nonneg:
  assumes "0 \<le> a" and "0 < b"
  shows "js_rem a b = a - b * of_int \<lfloor>a / b\<rfloor>"
  using assms by (simp add: js_rem_def Math_trunc_def)

lemma js_rem_of_neg:
  assumes "a < 0" and "0 < b"
  shows "js_rem a b = - (- a - b * of_int \<lfloor>- a / b\<rfloor>)"
proof -
  have "a / b < 0"
    using assms by (simp add: divide_neg_pos)
  then show ?thesis
    by (simp add: js_rem_def Math_trunc_def algebra_simps)
qed

lemma js_rem_range_nonneg:
  assumes "0 \<le> a" and "0 < b"
  shows "0 \<le> js_rem a b \<and> js_rem a b < b"
  using floor_rem_bounds [OF assms(2), of a] js_rem_of_nonneg [OF assms] by simp

lemma js_rem_range_neg:
  assumes "a < 0" and "0 < b"
  shows "- b < js_rem a b \<and> js_rem a b \<le> 0"
  using floor_rem_bounds [OF assms(2), of "- a"] js_rem_of_neg [OF assms] by simp

lemma js_rem_range:
  assumes "0 < b"
  shows "- b < js_rem a b \<and> js_rem a b < b"
proof (cases "0 \<le> a")
  case True
  with js_rem_range_nonneg [of a b] assms show ?thesis by simp
next
  case False
  with js_rem_range_neg [of a b] assms show ?thesis by simp
qed

section \<open>Dragging\<close>

text \<open>
  C6. A drag move with pointer delta \<open>(dx, dy)\<close> in a frame of width \<open>W\<close> and height
  \<open>H\<close> (both positive) puts the selected sticker's center at its old center pixel
  \<open>(uvX * W, (1 - uvY) * H)\<close> plus \<open>(dx, dy)\<close>, clamped to \<open>[0, W] \<times> [0, H]\<close>, and
  converts it back to UV; no other field and no other sticker changes. When the moved
  center stays inside the frame, \<open>uvX\<close> grows by \<open>dx / W\<close> and \<open>uvY\<close> by
  \<open>- dy / H\<close>: by \<open>10/360\<close> and \<open>5/360\<close> for a drag by \<open>(10, -5)\<close> in a
  \<open>360 \<times> 360\<close> frame.
\<close>

theorem drag_move_center:
  assumes "0 < rect_width r" and "0 < rect_height r"
    and "i < length prev" and "prev ! i = Full s"
  shows "onMove_dragging r i dragStart coords prev
           = Some (prev[i := Full (dragged r dragStart coords s)], coords)
       \<and> dragged r dragStart coords s
           = s\<lparr>uvX := max 0 (min (rect_width r)
                         (uvX s * rect_width r + (pt_x coords - pt_x dragStart))) / rect_width r,
               uvY := 1 - max 0 (min (rect_height r)
                         ((1 - uvY s) * rect_height r + (pt_y coords - pt_y dragStart)))
                           / rect_height r\<rparr>
       \<and> (0 \<le> uvX s * rect_width r + (pt_x coords - pt_x dragStart)
            \<and> uvX s * rect_width r + (pt_x coords - pt_x dragStart) \<le> rect_width r
            \<and> 0 \<le> (1 - uvY s) * rect_height r + (pt_y coords - pt_y dragStart)
            \<and> (1 - uvY s) * rect_height r + (pt_y coords - pt_y dragStart) \<le> rect_height r
          \<longrightarrow> uvX (dragged r dragStart coords s)
                = uvX s + (pt_x coords - pt_x dragStart) / rect_width r
            \<and> uvY (dragged r dragStart coords s)
                = uvY s - (pt_y coords - pt_y dragStart) / rect_height r)
       \<and> (rect_width r = 360 \<and> rect_height r = 360
            \<and> pt_x coords - pt_x dragStart = 10 \<and> pt_y coords - pt_y dragStart = - 5
            \<and> 0 < uvX s * 360 + 10 \<and> uvX s * 360 + 10 < 360
            \<and> 0 < (1 - uvY s) * 360 - 5 \<and> (1 - uvY s) * 360 - 5 < 360
          \<longrightarrow> uvX (dragged r dragStart coords s) = uvX s + 10 / 360
            \<and> uvY (dragged r dragStart coords s) = uvY s + 5 / 360)"
proof -
  let ?W = "rect_width r" and ?H = "rect_height r"
  let ?dx = "pt_x coords - pt_x dragStart" and ?dy = "pt_y coords - pt_y dragStart"
  have move: "onMove_dragging r i dragStart coords prev
           = Some (prev[i := Full (dragged r dragStart coords s)], coords)"
    using assms by (simp add: onMove_dragging_def)
  have shape: "dragged r dragStart coords s
           = s\<lparr>uvX := max 0 (min ?W (uvX s * ?W + ?dx)) / ?W,
               uvY := 1 - max 0 (min ?H ((1 - uvY s) * ?H + ?dy)) / ?H\<rparr>"
    by (simp add: dragged_def Let_def)
  have inside: "uvX (dragged r dragStart coords s) = uvX s + ?dx / ?W
            \<and> uvY (dragged r dragStart coords s) = uvY s - ?dy / ?H"
    if "0 \<le> uvX s * ?W + ?dx" "uvX s * ?W + ?dx \<le> ?W"
       "0 \<le> (1 - uvY s) * ?H + ?dy" "(1 - uvY s) * ?H + ?dy \<le> ?H"
  proof -
    have "max 0 (min ?W (uvX s * ?W + ?dx)) = uvX s * ?W + ?dx"
      using that by simp
    moreover have "max 0 (min ?H ((1 - uvY s) * ?H + ?dy)) = (1 - uvY s) * ?H + ?dy"
      using that by simp
    ultimately show ?thesis
      using assms(1,2) by (simp add: shape add_divide_distrib diff_divide_distrib)
  qed
  have special: "uvX (dragged r dragStart coords s) = uvX s + 10 / 360
            \<and> uvY (dragged r dragStart coords s) = uvY s + 5 / 360"
    if "?W = 360" "?H = 360" "?dx = 10" "?dy = - 5"
       "0 < uvX s * 360 + 10" "uvX s * 360 + 10 < 360"
       "0 < (1 - uvY s) * 360 - 5" "(1 - uvY s) * 360 - 5 < 360"
    using inside that by simp
  from move shape inside special show ?thesis
    by blast
qed

text \<open>
  C6, at an input: the default sticker at the center of the \<open>360 \<times> 360\<close> frame,
  dragged from \<open>(100, 100)\<close> to \<open>(110, 95)\<close>.
\<close>

theorem drag_move_center_witness:
  "0 < rect_width frame360 \<and> 0 < rect_height frame360
   \<and> (0::nat) < length [Full sampleSticker] \<and> [Full sampleSticker] ! 0 = Full sampleSticker
   \<and> onMove_dragging frame360 0 p100 p110 [Full sampleSticker]
       = Some ([Full (sampleSticker\<lparr>uvX := 1 / 2 + 10 / 360, uvY := 1 / 2 + 5 / 360\<rparr>)], p110)"
  using drag_move_center [of frame360 0 "[Full sampleSticker]" sampleSticker p100 p110]
  by (simp add: frame360_def sampleSticker_def newSticker_def photo_def p100_def p110_def
      Math_round_def fullCrop_def)

section \<open>Rotating\<close>

lemma mapAt_Full:
  "i < length prev \<Longrightarrow> prev ! i = Full s \<Longrightarrow> mapAt i f prev = Some (prev[i := Full (f s)])"
  by (simp add: mapAt_def)

text \<open>
  C7 as stated fails: the rotate-left button on a sticker at rotation \<open>0\<close> stores
  \<open>-15\<close>, which is outside \<open>[0, 360)\<close>, since \<open>%\<close> keeps the sign of the sum.
\<close>

theorem rotateSticker_left_negative:
  "rotationAt 0 (rotateSticker (Some 0) TurnLeft [Full sampleSticker]) = Some (- 15)
   \<and> rotation sampleSticker = 0
   \<and> \<not> (0 \<le> (- 15 :: real) \<and> (- 15 :: real) < 360)"
  by (simp add: rotationAt_def rotateSticker_def mapAt_def sampleSticker_def newSticker_def
      js_rem_def Math_trunc_def Let_def)

text \<open>
  C7, amended. The rotate buttons store \<open>(rotation + delta) % 360\<close> and the rotate handle
  stores \<open>(rotation\<^sub>0 + (pointer angle - pointer angle at grab)) % 360\<close>, where
  \<open>rotation\<^sub>0\<close> is the rotation at grab and \<open>%\<close> is JavaScript's remainder. The
  stored value lies strictly between \<open>-360\<close> and \<open>360\<close>. For a non-negative sum it is
  the sum modulo 360 and lies in \<open>[0, 360)\<close>; for a negative sum it is the negated
  remainder of the negated sum, and is not positive.
\<close>

theorem rotation_js_remainder:
  assumes "i < length prev" and "prev ! i = Full s"
  shows "rotateSticker (Some i) dir prev
           = Some (prev[i := Full (s\<lparr>rotation :=
                 js_rem (rotation s + (if dir = TurnLeft then - 15 else 15)) 360\<rparr>)])
       \<and> rotateSelectedBy (Some i) deg prev
           = Some (prev[i := Full (s\<lparr>rotation := js_rem (rotation s + deg) 360\<rparr>)])
       \<and> (rot_index st = i \<longrightarrow> onMove_rotating atan2deg r st coords prev
           = Some (prev[i := Full (s\<lparr>rotation :=
                 js_rem (startAngle st + (pointerAngleDeg atan2deg r coords s - pointerAngle st))
                   360\<rparr>)]))
       \<and> (startRotateHandle atan2deg r prev i coords0 = Some st
            \<longrightarrow> rot_index st = i \<and> startAngle st = rotation s
              \<and> pointerAngle st = pointerAngleDeg atan2deg r coords0 s)
       \<and> - 360 < js_rem a 360 \<and> js_rem a 360 < 360
       \<and> (0 \<le> a \<longrightarrow> 0 \<le> js_rem a 360 \<and> js_rem a 360 = a - 360 * of_int \<lfloor>a / 360\<rfloor>)
       \<and> (a < 0 \<longrightarrow> js_rem a 360 \<le> 0 \<and> js_rem a 360 = - js_rem (- a) 360)"
proof -
  have buttons: "rotateSticker (Some i) dir prev
           = Some (prev[i := Full (s\<lparr>rotation :=
                 js_rem (rotation s + (if dir = TurnLeft then - 15 else 15)) 360\<rparr>)])"
    using assms by (simp add: rotateSticker_def mapAt_Full Let_def)
  have by_deg: "rotateSelectedBy (Some i) deg prev
           = Some (prev[i := Full (s\<lparr>rotation := js_rem (rotation s + deg) 360\<rparr>)])"
    using assms by (simp add: rotateSelectedBy_def mapAt_Full)
  have handle: "onMove_rotating atan2deg r st coords prev
           = Some (prev[i := Full (s\<lparr>rotation :=
                 js_rem (startAngle st + (pointerAngleDeg atan2deg r coords s - pointerAngle st))
                   360\<rparr>)])" if "rot_index st = i"
    using assms that by (simp add: onMove_rotating_def mapAt_Full Let_def)
  have grab: "rot_index st = i \<and> startAngle st = rotation s
              \<and> pointerAngle st = pointerAngleDeg atan2deg r coords0 s"
    if "startRotateHandle atan2deg r prev i coords0 = Some st"
    using assms that by (auto simp: startRotateHandle_def)
  have range: "- 360 < js_rem a 360 \<and> js_rem a 360 < 360"
    using js_rem_range [of 360 a] by simp
  have nonneg: "0 \<le> js_rem a 360 \<and> js_rem a 360 = a - 360 * of_int \<lfloor>a / 360\<rfloor>" if "0 \<le> a"
    using js_rem_range_nonneg [of a 360] js_rem_of_nonneg [of a 360] that by simp
  have neg: "js_rem a 360 \<le> 0 \<and> js_rem a 360 = - js_rem (- a) 360" if "a < 0"
    using js_rem_range_neg [of a 360] js_rem_of_neg [of a 360] js_rem_of_nonneg [of "- a" 360] that
    by simp
  from buttons by_deg handle grab range nonneg neg show ?thesis
    by blast
qed

text \<open>
  C7, at inputs: \<open>350 + 15\<close> gives \<open>5\<close>, \<open>350 + 20\<close> gives \<open>10\<close>, a handle
  grabbed at pointer angle \<open>25\<close> and moved to \<open>45\<close> turns \<open>350\<close> into \<open>10\<close>.
\<close>

theorem rotation_js_remainder_witness:
  "(0::nat) < length [Full sticker350] \<and> [Full sticker350] ! 0 = Full sticker350
   \<and> rotateSticker (Some 0) TurnRight [Full sticker350]
       = Some [Full (sticker350\<lparr>rotation := 5\<rparr>)]
   \<and> rotateSelectedBy (Some 0) 20 [Full sticker350]
       = Some [Full (sticker350\<lparr>rotation := 10\<rparr>)]
   \<and> rot_index grabbed = 0
   \<and> onMove_rotating (\<lambda>dy dx. 45) frame360 grabbed p110 [Full sticker350]
       = Some [Full (sticker350\<lparr>rotation := 10\<rparr>)]
   \<and> startRotateHandle (\<lambda>dy dx. 25) frame360 [Full sticker350] 0 p100 = Some grabbed
   \<and> (0::real) \<le> 370 \<and> js_rem 370 360 = 10
   \<and> (- 15 :: real) < 0 \<and> js_rem (- 15) 360 = - 15"
  using rotation_js_remainder [of 0 "[Full sticker350]" sticker350 TurnRight 20 grabbed
      "\<lambda>dy dx. 45" frame360 p110 ]
    rotation_js_remainder [of 0 "[Full sticker350]" sticker350 TurnRight 20 grabbed
      "\<lambda>dy dx. 25" frame360 p110 p100 370]
    rotation_js_remainder [of 0 "[Full sticker350]" sticker350 TurnRight 20 grabbed
      "\<lambda>dy dx. 25" frame360 p110 p100 "- 15"]
  by (simp add: sticker350_def grabbed_def pointerAngleDeg_def startRotateHandle_def
      frame360_def sampleSticker_def newSticker_def photo_def p100_def p110_def
      js_rem_def Math_trunc_def Math_round_def fullCrop_def Let_def)

section \<open>Resizing\<close>

text \<open>
  C8 as stated fails: a \<open>100 \<times> 50\<close> sticker of aspect ratio \<open>2\<close>, grabbed at
  \<open>(200, 200)\<close> and shrunk by moving the pointer to \<open>(110, 110)\<close>, becomes
  \<open>24 \<times> 24\<close>: both sides hit their own floor, and the height is not the width
  divided by the aspect ratio.
\<close>

theorem resize_height_floor_distorts:
  "onMove_resizing frame360 grab200 p110_110 [Full sampleSticker]
     = Some [Full (sampleSticker\<lparr>width := 24, height := 24, scale := 24 / 360\<rparr>)]
   \<and> aspectRatio sampleSticker = 2
   \<and> (24 :: real) \<noteq> 24 / aspectRatio sampleSticker"
  by (simp add: onMove_resizing_def resized_def frame360_def grab200_def p110_110_def
      sampleSticker_def newSticker_def photo_def Math_round_def fullCrop_def Let_def)

lemma onMove_resizing_nth:
  assumes "onMove_resizing r rs coords prev = Some next"
    and "i < length prev" and "prev ! i = Full s"
  shows "next ! i = (if sticker_id s \<noteq> rs_id rs then Full s else Full (resized r rs coords s))"
    and "sticker_id s = rs_id rs \<longrightarrow> aspectRatio s \<noteq> 0 \<and> max (rect_width r) (rect_height r) \<noteq> 0"
proof -
  from assms(1) have all: "list_all (resizeDivides r rs) prev"
    and res: "next = map (resizeEntry r rs coords) prev"
    by (auto simp: onMove_resizing_def split: if_splits)
  from res assms(2,3) show "next ! i = (if sticker_id s \<noteq> rs_id rs then Full s
      else Full (resized r rs coords s))"
    by simp
  from all assms(2) have "resizeDivides r rs (prev ! i)"
    by (simp add: list_all_length)
  with assms(3) show "sticker_id s = rs_id rs \<longrightarrow>
      aspectRatio s \<noteq> 0 \<and> max (rect_width r) (rect_height r) \<noteq> 0"
    by auto
qed

text \<open>
  C8, amended. For a resize move with pointer displacement \<open>(dx, dy)\<close> from the grab
  point, the new width is \<open>max(24, round(startWidth + max(dx, dy)))\<close>, the new height is
  \<open>max(24, round(startHeight + max(dx, dy) / aspectRatio))\<close>, so neither is below 24, and
  the new scale is the new width divided by \<open>max(frameWidth, frameHeight)\<close>, clamped to
  \<open>[0.05, 0.5]\<close>; the field \<open>aspectRatio\<close> is unchanged. Before rounding and the
  floor, the height is the width divided by the aspect ratio when the start box has that
  ratio.
\<close>

theorem resize_move_size:
  assumes "onMove_resizing r rs coords prev = Some next"
    and "i < length prev" and "prev ! i = Full s" and "sticker_id s = rs_id rs"
  shows "next ! i = Full (resized r rs coords s)
       \<and> width (resized r rs coords s)
           = max 24 (of_int (Math_round
               (rs_width rs + max (pt_x coords - rs_x rs) (pt_y coords - rs_y rs))))
       \<and> height (resized r rs coords s)
           = max 24 (of_int (Math_round
               (rs_height rs + max (pt_x coords - rs_x rs) (pt_y coords - rs_y rs)
                  / aspectRatio s)))
       \<and> scale (resized r rs coords s)
           = min (1 / 2) (max (5 / 100)
               (width (resized r rs coords s) / max (rect_width r) (rect_height r)))
       \<and> aspectRatio (resized r rs coords s) = aspectRatio s
       \<and> 24 \<le> width (resized r rs coords s) \<and> 24 \<le> height (resized r rs coords s)
       \<and> 5 / 100 \<le> scale (resized r rs coords s) \<and> scale (resized r rs coords s) \<le> 1 / 2
       \<and> (rs_height rs = rs_width rs / aspectRatio s
            \<longrightarrow> rs_height rs + max (pt_x coords - rs_x rs) (pt_y coords - rs_y rs) / aspectRatio s
                = (rs_width rs + max (pt_x coords - rs_x rs) (pt_y coords - rs_y rs))
                    / aspectRatio s)"
proof -
  have at_i: "next ! i = Full (resized r rs coords s)"
    using onMove_resizing_nth(1) [OF assms(1-3)] assms(4) by simp
  have fields: "width (resized r rs coords s)
           = max 24 (of_int (Math_round
               (rs_width rs + max (pt_x coords - rs_x rs) (pt_y coords - rs_y rs))))"
      "height (resized r rs coords s)
           = max 24 (of_int (Math_round
               (rs_height rs + max (pt_x coords - rs_x rs) (pt_y coords - rs_y rs)
                  / aspectRatio s)))"
      "scale (resized r rs coords s)
           = min (1 / 2) (max (5 / 100)
               (width (resized r rs coords s) / max (rect_width r) (rect_height r)))"
      "aspectRatio (resized r rs coords s) = aspectRatio s"
    by (simp_all add: resized_def Let_def)
  have size_bounds: "24 \<le> width (resized r rs coords s)" "24 \<le> height (resized r rs coords s)"
    unfolding fields by simp_all
  have clamp_bounds: "(5 / 100 :: real) \<le> min (1 / 2) (max (5 / 100) v)"
      "min (1 / 2) (max (5 / 100) v) \<le> (1 / 2 :: real)" for v :: real
    by (simp_all add: min_def max_def)
  have bounds: "24 \<le> width (resized r rs coords s)" "24 \<le> height (resized r rs coords s)"
      "5 / 100 \<le> scale (resized r rs coords s)" "scale (resized r rs coords s) \<le> 1 / 2"
    using size_bounds clamp_bounds unfolding fields(3) by blast+
  have unrounded: "rs_height rs + d / aspectRatio s = (rs_width rs + d) / aspectRatio s"
    if "rs_height rs = rs_width rs / aspectRatio s" for d
    using that by (simp add: add_divide_distrib)
  from at_i fields bounds unrounded show ?thesis
    by blast
qed

text \<open>
  C8, at an input: the \<open>100 \<times> 50\<close> sticker grabbed at \<open>(200, 200)\<close>, pointer moved
  to \<open>(230, 210)\<close> in the \<open>360 \<times> 360\<close> frame, becomes \<open>130 \<times> 65\<close>.
\<close>

theorem resize_move_size_witness:
  "onMove_resizing frame360 grab200 p230_210 [Full sampleSticker]
     = Some [Full (sampleSticker\<lparr>width := 130, height := 65, scale := 130 / 360\<rparr>)]
   \<and> (0::nat) < length [Full sampleSticker] \<and> [Full sampleSticker] ! 0 = Full sampleSticker
   \<and> sticker_id sampleSticker = rs_id grab200
   \<and> rs_height grab200 = rs_width grab200 / aspectRatio sampleSticker
   \<and> width (resized frame360 grab200 p230_210 sampleSticker) = 130
   \<and> height (resized frame360 grab200 p230_210 sampleSticker) = 65
   \<and> scale (resized frame360 grab200 p230_210 sampleSticker) = 130 / 360"
  using resize_move_size [of frame360 grab200 p230_210 "[Full sampleSticker]"
      "[Full (sampleSticker\<lparr>width := 130, height := 65, scale := 130 / 360\<rparr>)]" 0 sampleSticker]
  by (simp add: onMove_resizing_def resized_def frame360_def grab200_def p230_210_def
      sampleSticker_def newSticker_def photo_def Math_round_def fullCrop_def Let_def)

section \<open>Crop commit\<close>

lemma fullCrop_iff:
  "(crop_x c = 0 \<and> crop_y c = 0 \<and> crop_width c = 100 \<and> crop_height c = 100) = (c = fullCrop)"
  by (cases c) (auto simp: fullCrop_def)

lemma applyCrop_Some:
  assumes "applyCrop idx dataUrl cropW cropH prev = Some res"
    and "idx < length prev" and "prev ! idx = Full x"
  shows "\<exists>aspect. cropAspect cropW cropH x = Some aspect \<and> aspect \<noteq> 0
           \<and> res = prev[idx := Full (cropped dataUrl aspect x)]"
  using assms by (auto simp: applyCrop_def split: option.splits if_splits)

lemma commitCrop_cases:
  assumes "commitCrop snap idx loaded has_ctx prev = Some res"
  shows "res = prev \<or>
         (\<exists>s c img. idx < length snap \<and> snap ! idx = Full s \<and> crop s = Some c
            \<and> loaded = Some img
            \<and> applyCrop idx
                 (CanvasCrop (src s) (crop_x c / 100 * real (img_width img))
                    (crop_y c / 100 * real (img_height img))
                    (crop_width c / 100 * real (img_width img))
                    (crop_height c / 100 * real (img_height img)))
                 (crop_width c / 100 * real (img_width img))
                 (crop_height c / 100 * real (img_height img)) prev = Some res)"
proof (cases "idx < length snap")
  case False
  with assms show ?thesis by (simp add: commitCrop_def)
next
  case inside: True
  show ?thesis
  proof (cases "snap ! idx")
    case (ZOnly z)
    with assms inside show ?thesis by (simp add: commitCrop_def)
  next
    case (Full s)
    show ?thesis
    proof (cases "crop s")
      case None
      with assms inside Full show ?thesis by (simp add: commitCrop_def)
    next
      case (Some c)
      show ?thesis
      proof (cases loaded)
        case None
        with assms inside Full Some show ?thesis
          by (simp add: commitCrop_def split: if_splits)
      next
        case loaded: (Some img)
        from assms inside Full Some loaded show ?thesis
          by (simp add: commitCrop_def Let_def split: if_splits)
      qed
    qed
  qed
qed

lemma commitCrop_not_full:
  assumes "idx < length snap" and "snap ! idx = Full s" and "crop s = Some c"
    and "c \<noteq> fullCrop"
  shows "commitCrop snap idx (Some img) True prev
         = applyCrop idx
             (CanvasCrop (src s) (crop_x c / 100 * real (img_width img))
                (crop_y c / 100 * real (img_height img))
                (crop_width c / 100 * real (img_width img))
                (crop_height c / 100 * real (img_height img)))
             (crop_width c / 100 * real (img_width img))
             (crop_height c / 100 * real (img_height img)) prev"
  using assms by (simp add: commitCrop_def fullCrop_iff Let_def)

lemma cropAspect_pos:
  assumes "cropAspect cropW cropH x = Some aspect" and "aspect \<noteq> 0"
    and "0 \<le> cropW" and "0 \<le> cropH" and "0 < aspectRatio x"
  shows "0 < aspect"
proof -
  have "0 \<le> cropW / cropH"
    using assms(3,4) by simp
  with assms(1,2,5) show ?thesis
    by (auto simp: cropAspect_def split: if_splits)
qed

text \<open>
  What \<open>commitCrop\<close> does with the rectangle it reads, the crop of \<open>stickers[idx]\<close>
  in its closure (positive width and height, an image of positive size \<open>W \<times> H\<close>):
  when the rectangle differs from the full-image default, the sticker at \<open>idx\<close> of the
  current array gets as \<open>src\<close> the export of a canvas of size
  \<open>(width/100 * W, height/100 * H)\<close> holding that sub-rectangle, as \<open>aspectRatio\<close>
  that width divided by that height, which is positive, and the default \<open>crop\<close>; when
  the rectangle is the default the array is left as it is. Half the width and half the
  height of a \<open>200 \<times> 100\<close> image give a \<open>100 \<times> 50\<close> image of aspect ratio \<open>2\<close>.
\<close>

lemma commitCrop_rasterizes:
  assumes "idx < length snap" and "snap ! idx = Full s" and "crop s = Some c"
    and "idx < length prev" and "prev ! idx = Full x"
    and "0 < crop_width c" and "0 < crop_height c"
    and "0 < img_width img" and "0 < img_height img"
  shows "(c \<noteq> fullCrop \<longrightarrow>
            commitCrop snap idx (Some img) True prev
              = Some (prev[idx := Full (x\<lparr>
                  src := CanvasCrop (src s)
                           (crop_x c / 100 * real (img_width img))
                           (crop_y c / 100 * real (img_height img))
                           (crop_width c / 100 * real (img_width img))
                           (crop_height c / 100 * real (img_height img)),
                  aspectRatio := (crop_width c / 100 * real (img_width img))
                                   / (crop_height c / 100 * real (img_height img)),
                  width := of_int (Math_round (width x)),
                  height := of_int (Math_round (width x /
                              ((crop_width c / 100 * real (img_width img))
                                 / (crop_height c / 100 * real (img_height img))))),
                  crop := Some fullCrop\<rparr>)])
            \<and> exportSize (CanvasCrop (src s)
                           (crop_x c / 100 * real (img_width img))
                           (crop_y c / 100 * real (img_height img))
                           (crop_width c / 100 * real (img_width img))
                           (crop_height c / 100 * real (img_height img)))
                = Some (nat \<lfloor>crop_width c / 100 * real (img_width img)\<rfloor>,
                        nat \<lfloor>crop_height c / 100 * real (img_height img)\<rfloor>)
            \<and> 0 < (crop_width c / 100 * real (img_width img))
                      / (crop_height c / 100 * real (img_height img)))
       \<and> (c = fullCrop \<longrightarrow> commitCrop snap idx loaded has_ctx prev = Some prev)
       \<and> (crop_width c = 50 \<and> crop_height c = 50 \<and> img_width img = 200 \<and> img_height img = 100
            \<longrightarrow> crop_width c / 100 * real (img_width img) = 100
              \<and> crop_height c / 100 * real (img_height img) = 50
              \<and> (crop_width c / 100 * real (img_width img))
                   / (crop_height c / 100 * real (img_height img)) = 2)
       \<and> (0 < aspectRatio x \<and> commitCrop snap idx loaded has_ctx prev = Some res
            \<and> res ! idx = Full x' \<longrightarrow> 0 < aspectRatio x')"
proof -
  define cropX where "cropX = crop_x c / 100 * real (img_width img)"
  define cropY where "cropY = crop_y c / 100 * real (img_height img)"
  define cropW where "cropW = crop_width c / 100 * real (img_width img)"
  define cropH where "cropH = crop_height c / 100 * real (img_height img)"
  have posW: "0 < cropW" and posH: "0 < cropH"
    unfolding cropW_def cropH_def using assms(6-9) by simp_all
  then have ratio: "0 < cropW / cropH"
    by simp
  have aspect: "cropAspect cropW cropH x = Some (cropW / cropH)"
    using posW posH by (simp add: cropAspect_def)
  have applied: "applyCrop idx (CanvasCrop (src s) cropX cropY cropW cropH) cropW cropH prev
      = Some (prev[idx := Full (cropped (CanvasCrop (src s) cropX cropY cropW cropH)
                (cropW / cropH) x)])"
    using assms(4,5) aspect posW posH by (simp add: applyCrop_def)
  have commit: "commitCrop snap idx (Some img) True prev
      = Some (prev[idx := Full (cropped (CanvasCrop (src s) cropX cropY cropW cropH)
                (cropW / cropH) x)])" if "c \<noteq> fullCrop"
    unfolding commitCrop_not_full [OF assms(1-3) that]
    using applied by (simp only: cropX_def cropY_def cropW_def cropH_def)
  have size: "exportSize (CanvasCrop (src s) cropX cropY cropW cropH)
      = Some (nat \<lfloor>cropW\<rfloor>, nat \<lfloor>cropH\<rfloor>)"
    using posW posH by (simp add: Math_trunc_def)
  have full: "commitCrop snap idx loaded has_ctx prev = Some prev" if "c = fullCrop"
    using assms(1-3) that by (simp add: commitCrop_def fullCrop_def)
  have example: "cropW = 100 \<and> cropH = 50 \<and> cropW / cropH = 2"
    if "crop_width c = 50 \<and> crop_height c = 50 \<and> img_width img = 200 \<and> img_height img = 100"
    using that by (simp add: cropW_def cropH_def)
  have positive: "0 < aspectRatio x'"
    if old: "0 < aspectRatio x" and res: "commitCrop snap idx loaded has_ctx prev = Some res"
      and at: "res ! idx = Full x'"
  proof -
    from commitCrop_cases [OF res] show ?thesis
    proof (elim disjE exE conjE)
      assume "res = prev"
      with at assms(5) old show ?thesis by simp
    next
      fix s' c' img'
      assume snap': "snap ! idx = Full s'" and crop': "crop s' = Some c'"
        and applied': "applyCrop idx
             (CanvasCrop (src s') (crop_x c' / 100 * real (img_width img'))
               (crop_y c' / 100 * real (img_height img'))
               (crop_width c' / 100 * real (img_width img'))
               (crop_height c' / 100 * real (img_height img')))
             (crop_width c' / 100 * real (img_width img'))
             (crop_height c' / 100 * real (img_height img')) prev = Some res"
      from snap' crop' assms(2,3) have same: "c' = c"
        by simp
      from applyCrop_Some [OF applied' assms(4,5)] obtain a
        where a: "cropAspect (crop_width c' / 100 * real (img_width img'))
                    (crop_height c' / 100 * real (img_height img')) x = Some a"
          and nz: "a \<noteq> 0"
          and upd: "res = prev[idx := Full (cropped
             (CanvasCrop (src s') (crop_x c' / 100 * real (img_width img'))
               (crop_y c' / 100 * real (img_height img'))
               (crop_width c' / 100 * real (img_width img'))
               (crop_height c' / 100 * real (img_height img'))) a x)]"
        by blast
      have "0 \<le> crop_width c' / 100 * real (img_width img')"
        and "0 \<le> crop_height c' / 100 * real (img_height img')"
        using same assms(6,7) by simp_all
      with a nz old have "0 < a"
        by (intro cropAspect_pos [where x = x and aspect = a])
      have "x' = cropped
             (CanvasCrop (src s') (crop_x c' / 100 * real (img_width img'))
               (crop_y c' / 100 * real (img_height img'))
               (crop_width c' / 100 * real (img_width img'))
               (crop_height c' / 100 * real (img_height img'))) a x"
        using upd at assms(4) by simp
      then have "aspectRatio x' = a"
        by (simp add: cropped_def)
      with \<open>0 < a\<close> show ?thesis
        by simp
    qed
  qed
  from commit size ratio full example positive show ?thesis
    unfolding cropped_def cropX_def cropY_def cropW_def cropH_def by blast
qed

text \<open>
  At inputs whose closure holds the current array: the rectangle \<open>{25, 25, 50, 50}\<close> on
  a \<open>200 \<times> 100\<close> image, and the default rectangle.
\<close>

lemma commitCrop_rasterizes_example:
  "(0::nat) < length [Full halfCropped] \<and> [Full halfCropped] ! 0 = Full halfCropped
   \<and> crop halfCropped = Some halfCrop \<and> halfCrop \<noteq> fullCrop
   \<and> 0 < crop_width halfCrop \<and> 0 < crop_height halfCrop
   \<and> 0 < img_width wide \<and> 0 < img_height wide
   \<and> crop_width halfCrop = 50 \<and> crop_height halfCrop = 50
   \<and> img_width wide = 200 \<and> img_height wide = 100
   \<and> commitCrop [Full halfCropped] 0 (Some wide) True [Full halfCropped] = Some [Full committed]
   \<and> exportSize (src committed) = Some (100, 50)
   \<and> aspectRatio committed = 2 \<and> 0 < aspectRatio committed
   \<and> crop committed = Some fullCrop
   \<and> crop sampleSticker = Some fullCrop
   \<and> commitCrop [Full sampleSticker] 0 (Some wide) True [Full sampleSticker]
       = Some [Full sampleSticker]"
  using commitCrop_rasterizes [of 0 "[Full halfCropped]" halfCropped halfCrop
      "[Full halfCropped]" halfCropped wide "Some wide" True "[Full committed]" committed]
    commitCrop_rasterizes [of 0 "[Full sampleSticker]" sampleSticker fullCrop
      "[Full sampleSticker]" sampleSticker wide "Some wide" True "[Full sampleSticker]"
      sampleSticker]
  by (simp add: halfCropped_def halfCrop_def wide_def committed_def fullCrop_def
      sampleSticker_def newSticker_def photo_def Math_round_def Math_trunc_def)

text \<open>
  The second gesture on the same sticker commits the rectangle of the first one: dragged
  to \<open>{0, 0, 80, 90}\<close>, the sticker is rasterised with \<open>{0, 0, 90, 95}\<close>, the crop its
  closure holds, and the rectangle just dragged is dropped by the reset.
\<close>

lemma cropGesture_second_release_commits_previous:
  "cropGesture afterFirstGesture (Some ''se'') cropDown (Some thumb64) [cropMove]
     (Some (photo ''a.png'')) True
   = Some [Full (sampleSticker\<lparr>src := CanvasCrop (DataUrl ''a.png'') 0 0 360 190,
                                 aspectRatio := 36 / 19, width := 100, height := 53,
                                 crop := Some fullCrop\<rparr>)]
   \<and> crop_onMoves thumb64
         \<lparr>cs_handle = Some ''se'', cs_startX = 200, cs_startY = 300, cs_crop = crop90\<rparr>
         0 [cropMove] (stickers afterFirstGesture)
       = Some [Full (sampleSticker\<lparr>crop := Some crop80\<rparr>)]"
  by (simp add: cropGesture_def handleCropMouseDown_def crop_onMove_def draggedCrop_def
      commitCrop_def applyCrop_def cropAspect_def cropped_def afterFirstGesture_def
      thumb64_def cropDown_def cropMove_def crop90_def crop80_def fullCrop_def
      sampleSticker_def newSticker_def photo_def Math_round_def Let_def)

text \<open>
  C9. Committing a crop rectangle that differs from the full-image default should replace
  the sticker's \<open>src\<close> by the rasterised sub-rectangle, recompute \<open>aspectRatio\<close> and
  reset \<open>crop\<close>. The commit at the release of a crop gesture does not: \<open>commitCrop\<close>
  reads the crop from the \<open>stickers\<close> array of its closure, which is the array of the
  mouse-down. A freshly uploaded \<open>400 \<times> 200\<close> sticker, its crop dragged with the
  \<open>se\<close> handle from the default to \<open>{0, 0, 90, 95}\<close>, is tested with the default
  rectangle at the release: nothing is rasterised, \<open>src\<close> and \<open>aspectRatio\<close> stay,
  and the crop stays \<open>{0, 0, 90, 95}\<close>.
\<close>

theorem cropGesture_first_release_commits_nothing:
  "cropGesture selectedOne (Some ''se'') cropDown (Some thumb64) [cropMove]
     (Some (photo ''a.png'')) True
   = Some [Full (sampleSticker\<lparr>crop := Some crop90\<rparr>)]
   \<and> crop90 \<noteq> fullCrop
   \<and> src (sampleSticker\<lparr>crop := Some crop90\<rparr>) = DataUrl ''a.png''
   \<and> aspectRatio (sampleSticker\<lparr>crop := Some crop90\<rparr>) = 2
   \<and> commitCrop (stickers afterFirstGesture) 0 (Some (photo ''a.png'')) True
         (stickers afterFirstGesture)
       = Some [Full (sampleSticker\<lparr>src := CanvasCrop (DataUrl ''a.png'') 0 0 360 190,
                                     aspectRatio := 36 / 19, width := 100, height := 53,
                                     crop := Some fullCrop\<rparr>)]"
  by (simp add: cropGesture_def handleCropMouseDown_def crop_onMove_def draggedCrop_def
      commitCrop_def applyCrop_def cropAspect_def cropped_def selectedOne_def
      afterFirstGesture_def thumb64_def cropDown_def cropMove_def crop90_def fullCrop_def
      sampleSticker_def newSticker_def photo_def Math_round_def Let_def)

section \<open>Bake pipeline\<close>

subsection \<open>The loop and the painter\<close>

lemma drawAll_ops:
  "fst (drawAll decode w h sts st)
   = fst st @ List.map_filter (\<lambda>s. map_option (stickerOp w h s) (decode (fs_src s))) sts"
proof (induction sts arbitrary: st)
  case Nil
  show ?case by (simp add: map_filter_simps)
next
  case (Cons s sts)
  show ?case
    by (cases "decode (fs_src s)") (simp_all add: Cons drawSticker_def map_filter_simps)
qed

lemma drawAll_warnings:
  "snd (drawAll decode w h sts st)
   = snd st @ map (\<lambda>s. StickerFailedToLoad (fs_src s))
               (filter (\<lambda>s. decode (fs_src s) = None) sts)"
proof (induction sts arbitrary: st)
  case Nil
  show ?case by simp
next
  case (Cons s sts)
  show ?case
    by (cases "decode (fs_src s)") (simp_all add: Cons drawSticker_def)
qed

lemma bakeCanvas_ops:
  "ops (fst (bakeCanvas decode bd stored mc sts))
   = background bd stored mc
     @ List.map_filter (\<lambda>s. map_option (stickerOp (texWidth stored) (texHeight stored) s)
                             (decode (fs_src s))) sts"
  by (simp add: bakeCanvas_def Let_def drawAll_ops)

lemma bakeCanvas_size:
  "canvas_width (fst (bakeCanvas decode bd stored mc sts)) = texWidth stored"
  "canvas_height (fst (bakeCanvas decode bd stored mc sts)) = texHeight stored"
  by (simp_all add: bakeCanvas_def Let_def)

lemma bakeCanvas_warnings:
  "snd (bakeCanvas decode bd stored mc sts)
   = map (\<lambda>s. StickerFailedToLoad (fs_src s)) (filter (\<lambda>s. decode (fs_src s) = None) sts)"
  by (simp add: bakeCanvas_def Let_def drawAll_warnings)

lemma paint_append:
  "paint raster (xs @ ys) below p = paint raster ys (paint raster xs below p) p"
  by (induction xs arbitrary: below) simp_all

lemma paint_uncovered:
  "(\<And>op. op \<in> set ys \<Longrightarrow> opPixel raster op p = None) \<Longrightarrow> paint raster ys below p = below"
  by (induction ys arbitrary: below) simp_all

lemma paint_last_cover:
  assumes "opPixel raster op p = Some c"
    and "\<And>op'. op' \<in> set post \<Longrightarrow> opPixel raster op' p = None"
  shows "paint raster (pre @ op # post) below p = Some c"
  using assms by (simp add: paint_append paint_uncovered)

lemma opPixel_stickerOp: "opPixel raster (stickerOp w h s img) p = raster (stickerOp w h s img) p"
  by (simp add: stickerOp_def Let_def split: prod.splits)

lemma map_filter_append:
  "List.map_filter f (xs @ ys) = List.map_filter f xs @ List.map_filter f ys"
  by (simp add: map_filter_def)

lemma map_filter_member:
  assumes "y \<in> set (List.map_filter f xs)"
  shows "\<exists>x \<in> set xs. f x = Some y"
  using assms by (auto simp: map_filter_def)

lemma bakeMesh_with_context:
  "bakeMesh decode True bd (Some stored) mc sts mat
   = Some (mat\<lparr>m_map := Some (CanvasTexture (fst (bakeCanvas decode bd stored mc sts))
                               ''srgb'' False True),
                 m_normalMap := o_normalMap stored,
                 m_roughnessMap := o_roughnessMap stored,
                 m_metalnessMap := o_metalnessMap stored,
                 m_aoMap := o_aoMap stored,
                 m_emissiveMap := o_emissiveMap stored,
                 m_color := Some (Color ''#ffffff''),
                 m_needsUpdate := True\<rparr>,
           snd (bakeCanvas decode bd stored mc sts))"
  by (simp add: bakeMesh_def Let_def case_prod_unfold)

lemma bakeMesh_without:
  "bakeMesh decode False bd stored_opt mc sts mat = None"
  "bakeMesh decode has_ctx bd None mc sts mat = None"
  by (simp_all add: bakeMesh_def split: option.splits)

subsection \<open>Canvas size and background\<close>

text \<open>
  C4. The canvas of a bake has the size of the original color map's image when that image
  exists with non-zero width and height, and is \<open>2048 \<times> 2048\<close> when the mesh has no
  color map. Before any sticker, the canvas holds one drawing call: a fill with the
  custom color in Custom mode; in Original mode the original image drawn over the whole
  canvas, or a fill with the stored base color when there is no color map. With no
  sticker and the custom color \<open>#ff0000\<close>, every pixel of the canvas is \<open>#ff0000\<close>.
\<close>

theorem bake_canvas_size_and_background:
  "canvas_width (fst (bakeCanvas decode bd stored mc sts)) = texWidth stored
   \<and> canvas_height (fst (bakeCanvas decode bd stored mc sts)) = texHeight stored
   \<and> (baseImage stored = Some b \<and> 0 < img_width b \<and> 0 < img_height b
        \<longrightarrow> texWidth stored = img_width b \<and> texHeight stored = img_height b)
   \<and> (o_map stored = None \<longrightarrow> texWidth stored = 2048 \<and> texHeight stored = 2048)
   \<and> ops (fst (bakeCanvas decode bd stored mc [])) = background bd stored mc
   \<and> (isCustomColor mc
        \<longrightarrow> background bd stored mc = [FillRect mc (texWidth stored) (texHeight stored)])
   \<and> (\<not> isCustomColor mc \<and> baseImage stored = Some b \<and> bd
        \<longrightarrow> background bd stored mc = [DrawBase b (texWidth stored) (texHeight stored)])
   \<and> (\<not> isCustomColor mc \<and> o_map stored = None
        \<longrightarrow> background bd stored mc
            = [FillRect (getStyle (o_color stored)) (texWidth stored) (texHeight stored)])
   \<and> isCustomColor ''#ff0000'' \<and> \<not> isCustomColor ''original'' \<and> \<not> isCustomColor ''reset''
   \<and> (fst p < texWidth stored \<and> snd p < texHeight stored
        \<longrightarrow> pixelOf raster (fst (bakeCanvas decode bd stored ''#ff0000'' [])) p
            = Some ''#ff0000'')"
proof -
  have size: "canvas_width (fst (bakeCanvas decode bd stored mc sts)) = texWidth stored"
    "canvas_height (fst (bakeCanvas decode bd stored mc sts)) = texHeight stored"
    by (rule bakeCanvas_size)+
  have from_image: "texWidth stored = img_width b \<and> texHeight stored = img_height b"
    if "baseImage stored = Some b" "0 < img_width b" "0 < img_height b"
    using that by (simp add: texWidth_def texHeight_def)
  have default: "texWidth stored = 2048 \<and> texHeight stored = 2048" if "o_map stored = None"
    using that by (simp add: texWidth_def texHeight_def baseImage_def)
  have empty: "ops (fst (bakeCanvas decode bd stored c [])) = background bd stored c" for c
    by (simp add: bakeCanvas_ops map_filter_simps)
  have custom: "background bd stored c = [FillRect c (texWidth stored) (texHeight stored)]"
    if "isCustomColor c" for c
    using that by (simp add: background_def)
  have original: "background bd stored mc = [DrawBase b (texWidth stored) (texHeight stored)]"
    if "\<not> isCustomColor mc" "baseImage stored = Some b" "bd"
    using that by (simp add: background_def)
  have fallback: "background bd stored mc
      = [FillRect (getStyle (o_color stored)) (texWidth stored) (texHeight stored)]"
    if "\<not> isCustomColor mc" "o_map stored = None"
    using that by (simp add: background_def baseImage_def)
  have modes: "isCustomColor ''#ff0000''" "\<not> isCustomColor ''original''"
    "\<not> isCustomColor ''reset''"
    by (simp_all add: isCustomColor_def)
  have red: "pixelOf raster (fst (bakeCanvas decode bd stored ''#ff0000'' [])) p
      = Some ''#ff0000''"
    if "fst p < texWidth stored" "snd p < texHeight stored"
    unfolding pixelOf_def empty custom [OF modes(1)] using that by simp
  from size from_image default empty custom original fallback modes red show ?thesis
    by blast
qed

text \<open>
  C4, at inputs: a mesh with a \<open>1024 \<times> 512\<close> color map and the same mesh without
  one.
\<close>

theorem bake_canvas_size_and_background_witness:
  "baseImage garmentMaps = Some \<lparr>img_name = ''base.png'', img_width = 1024, img_height = 512\<rparr>
   \<and> texWidth garmentMaps = 1024 \<and> texHeight garmentMaps = 512
   \<and> o_map plainMaps = None \<and> texWidth plainMaps = 2048 \<and> texHeight plainMaps = 2048
   \<and> isCustomColor ''#ff0000''
   \<and> background True garmentMaps ''#ff0000'' = [FillRect ''#ff0000'' 1024 512]
   \<and> \<not> isCustomColor ''original''
   \<and> background True garmentMaps ''original''
       = [DrawBase \<lparr>img_name = ''base.png'', img_width = 1024, img_height = 512\<rparr> 1024 512]
   \<and> background True plainMaps ''original'' = [FillRect ''rgb(200,10,10)'' 2048 2048]
   \<and> fst (1023 :: nat, 511 :: nat) < texWidth garmentMaps
   \<and> snd (1023 :: nat, 511 :: nat) < texHeight garmentMaps
   \<and> pixelOf boxRaster (fst (bakeCanvas decodeByName True garmentMaps ''#ff0000'' []))
         (1023, 511) = Some ''#ff0000''"
  using bake_canvas_size_and_background [of decodeByName True garmentMaps "''#ff0000''" "[]"
      "\<lparr>img_name = ''base.png'', img_width = 1024, img_height = 512\<rparr>" "(1023, 511)" boxRaster]
    bake_canvas_size_and_background [of decodeByName True garmentMaps "''original''" "[]"
      "\<lparr>img_name = ''base.png'', img_width = 1024, img_height = 512\<rparr>" "(1023, 511)" boxRaster]
    bake_canvas_size_and_background [of decodeByName True plainMaps "''original''" "[]"
      "\<lparr>img_name = ''base.png'', img_width = 1024, img_height = 512\<rparr>" "(1023, 511)" boxRaster]
  by (simp add: garmentMaps_def plainMaps_def garment_def baseTexture_def storeOriginalMaps_def
      baseImage_def isCustomColor_def)

subsection \<open>Paint order\<close>

text \<open>
  C2. For every sticker list the bake draws, after the background, the stickers whose
  images load, one drawing call each, in array order: the loop awaits each sticker's image
  before it turns to the next, so no load time enters the result. Hence where two stickers
  overlap, a pixel covered by the sticker at the higher index, and by none after it, shows
  that sticker's color, also when the lower one covers it. The array index is the
  \<open>zIndex\<close> whenever the stack satisfies its invariant: the sticker with \<open>zIndex\<close>
  \<open>z\<close> is the \<open>z\<close>-th one passed to the bake.
\<close>

theorem bake_paint_order:
  "ops (fst (bakeCanvas decode bd stored mc sts))
     = background bd stored mc
       @ List.map_filter (\<lambda>s. map_option (stickerOp (texWidth stored) (texHeight stored) s)
                               (decode (fs_src s))) sts
   \<and> (i < j \<and> j < length sts
        \<and> decode (fs_src (sts ! i)) = Some imgA \<and> decode (fs_src (sts ! j)) = Some imgB
        \<and> raster (stickerOp (texWidth stored) (texHeight stored) (sts ! i) imgA) p = Some colA
        \<and> raster (stickerOp (texWidth stored) (texHeight stored) (sts ! j) imgB) p = Some colB
        \<and> (\<forall>s' \<in> set (drop (Suc j) sts). \<forall>img. decode (fs_src s') = Some img
              \<longrightarrow> raster (stickerOp (texWidth stored) (texHeight stored) s' img) p = None)
      \<longrightarrow> pixelOf raster (fst (bakeCanvas decode bd stored mc sts)) p = Some colB)
   \<and> (map zIndex ss = [0..<length ss] \<and> k < length ss
      \<longrightarrow> stickerPropsForScene ss ! zIndex (ss ! k) = sceneSticker (ss ! k))"
proof -
  let ?W = "texWidth stored" and ?H = "texHeight stored"
  let ?f = "\<lambda>s. map_option (stickerOp ?W ?H s) (decode (fs_src s))"
  have order: "ops (fst (bakeCanvas decode bd stored mc sts))
     = background bd stored mc @ List.map_filter ?f sts"
    by (rule bakeCanvas_ops)
  have top: "pixelOf raster (fst (bakeCanvas decode bd stored mc sts)) p = Some colB"
    if j: "j < length sts" and B: "decode (fs_src (sts ! j)) = Some imgB"
      and covB: "raster (stickerOp ?W ?H (sts ! j) imgB) p = Some colB"
      and above: "\<forall>s' \<in> set (drop (Suc j) sts). \<forall>img. decode (fs_src s') = Some img
              \<longrightarrow> raster (stickerOp ?W ?H s' img) p = None"
  proof -
    have split: "sts = take j sts @ sts ! j # drop (Suc j) sts"
      using j by (rule id_take_nth_drop)
    have "List.map_filter ?f sts
        = List.map_filter ?f (take j sts) @ stickerOp ?W ?H (sts ! j) imgB
            # List.map_filter ?f (drop (Suc j) sts)"
      by (subst split) (simp add: map_filter_append map_filter_simps B)
    then have shape: "ops (fst (bakeCanvas decode bd stored mc sts))
        = (background bd stored mc @ List.map_filter ?f (take j sts))
          @ stickerOp ?W ?H (sts ! j) imgB # List.map_filter ?f (drop (Suc j) sts)"
      by (simp add: order)
    have none: "opPixel raster op' p = None"
      if "op' \<in> set (List.map_filter ?f (drop (Suc j) sts))" for op'
    proof -
      from map_filter_member [OF that] obtain s' where s': "s' \<in> set (drop (Suc j) sts)"
        and op': "?f s' = Some op'"
        by blast
      from op' obtain img where img: "decode (fs_src s') = Some img"
        and eq: "op' = stickerOp ?W ?H s' img"
        by (cases "decode (fs_src s')") auto
      from above s' img have "raster (stickerOp ?W ?H s' img) p = None"
        by blast
      then show ?thesis
        by (simp add: eq opPixel_stickerOp)
    qed
    have "opPixel raster (stickerOp ?W ?H (sts ! j) imgB) p = Some colB"
      by (simp add: opPixel_stickerOp covB)
    then show ?thesis
      unfolding pixelOf_def shape using none by (rule paint_last_cover)
  qed
  have z: "stickerPropsForScene ss ! zIndex (ss ! k) = sceneSticker (ss ! k)"
    if inv: "map zIndex ss = [0..<length ss]" and k: "k < length ss"
  proof -
    have "map zIndex ss ! k = [0..<length ss] ! k"
      by (simp only: inv)
    then have "zIndex (ss ! k) = k"
      using k by simp
    then show ?thesis
      using k by (simp add: stickerPropsForScene_def)
  qed
  from order top z show ?thesis
    by blast
qed

text \<open>
  C2, at an input: two stickers at the center of a \<open>1024 \<times> 512\<close> texture; the pixel
  \<open>(500, 250)\<close> lies in both and shows the second one.
\<close>

theorem bake_paint_order_witness:
  "ops (fst (bakeCanvas decodeByName True garmentMaps ''original'' [stickerA, stickerB]))
     = [DrawBase \<lparr>img_name = ''base.png'', img_width = 1024, img_height = 512\<rparr> 1024 512,
        DrawSticker (photo ''a.png'') 512 256 0 (768 / 5) (384 / 5),
        DrawSticker (photo ''b.png'') 512 256 0 (768 / 5) (384 / 5)]
   \<and> (0::nat) < 1 \<and> (1::nat) < length [stickerA, stickerB]
   \<and> decodeByName (fs_src ([stickerA, stickerB] ! 0)) = Some (photo ''a.png'')
   \<and> decodeByName (fs_src ([stickerA, stickerB] ! 1)) = Some (photo ''b.png'')
   \<and> boxRaster (stickerOp 1024 512 stickerA (photo ''a.png'')) (500, 250) = Some ''a.png''
   \<and> boxRaster (stickerOp 1024 512 stickerB (photo ''b.png'')) (500, 250) = Some ''b.png''
   \<and> pixelOf boxRaster
         (fst (bakeCanvas decodeByName True garmentMaps ''original'' [stickerA, stickerB]))
         (500, 250) = Some ''b.png''
   \<and> map zIndex [sampleSticker, sampleSticker\<lparr>zIndex := 1\<rparr>]
       = [0..<length [sampleSticker, sampleSticker\<lparr>zIndex := 1\<rparr>]]
   \<and> (1::nat) < length [sampleSticker, sampleSticker\<lparr>zIndex := 1\<rparr>]
   \<and> stickerPropsForScene [sampleSticker, sampleSticker\<lparr>zIndex := 1\<rparr>] ! 1
       = sceneSticker (sampleSticker\<lparr>zIndex := 1\<rparr>)"
  using bake_paint_order [of decodeByName True garmentMaps "''original''" "[stickerA, stickerB]"
      0 1 "photo ''a.png''" "photo ''b.png''" boxRaster "(500, 250)" "''a.png''" "''b.png''"
      "[sampleSticker, sampleSticker\<lparr>zIndex := 1\<rparr>]" 1]
  by (simp add: garmentMaps_def garment_def baseTexture_def storeOriginalMaps_def
      stickerA_def stickerB_def sceneSticker_def sampleSticker_def newSticker_def photo_def
      decodeByName_def boxRaster_def stickerOp_def stickerSize_def sizeFor_def
      background_def isCustomColor_def baseImage_def texWidth_def texHeight_def
      map_filter_simps stickerPropsForScene_def Math_round_def fullCrop_def Let_def)

subsection \<open>Images that fail to load\<close>

text \<open>
  C3. A sticker whose image fails to load during a bake is skipped with one warning: the
  canvas is the canvas of the bake of the same list without that sticker, the warnings
  are those of the stickers before it, its own, and those of the stickers after it, the
  material gets the same maps and color, and a bake that has a snapshot and a 2D context
  ends with a material.
\<close>

theorem bake_skips_failed_sticker:
  assumes "decode (fs_src s) = None"
  shows "fst (bakeCanvas decode bd stored mc (xs @ s # ys))
           = fst (bakeCanvas decode bd stored mc (xs @ ys))
       \<and> snd (bakeCanvas decode bd stored mc (xs @ s # ys))
           = snd (bakeCanvas decode bd stored mc xs) @ StickerFailedToLoad (fs_src s)
               # snd (bakeCanvas decode bd stored mc ys)
       \<and> map_option fst (bakeMesh decode has_ctx bd stored_opt mc (xs @ s # ys) mat)
           = map_option fst (bakeMesh decode has_ctx bd stored_opt mc (xs @ ys) mat)
       \<and> (has_ctx \<and> stored_opt = Some stored
            \<longrightarrow> bakeMesh decode has_ctx bd stored_opt mc (xs @ s # ys) mat \<noteq> None)"
proof -
  have same_any: "fst (bakeCanvas decode bd st mc (xs @ s # ys))
      = fst (bakeCanvas decode bd st mc (xs @ ys))" for st
  proof -
    have "List.map_filter (\<lambda>s. map_option (stickerOp (texWidth st) (texHeight st) s)
              (decode (fs_src s))) (xs @ s # ys)
        = List.map_filter (\<lambda>s. map_option (stickerOp (texWidth st) (texHeight st) s)
              (decode (fs_src s))) (xs @ ys)"
      using assms by (simp add: map_filter_append map_filter_simps)
    then show ?thesis
      by (simp add: bakeCanvas_def Let_def drawAll_ops)
  qed
  have warned: "snd (bakeCanvas decode bd stored mc (xs @ s # ys))
           = snd (bakeCanvas decode bd stored mc xs) @ StickerFailedToLoad (fs_src s)
               # snd (bakeCanvas decode bd stored mc ys)"
    using assms by (simp add: bakeCanvas_warnings)
  have mesh: "map_option fst (bakeMesh decode has_ctx bd stored_opt mc (xs @ s # ys) mat)
           = map_option fst (bakeMesh decode has_ctx bd stored_opt mc (xs @ ys) mat)"
  proof (cases stored_opt)
    case None
    then show ?thesis by (simp add: bakeMesh_def)
  next
    case (Some st)
    then show ?thesis
      using same_any [of st]
      by (cases has_ctx) (simp_all add: bakeMesh_with_context bakeMesh_without)
  qed
  have alive: "bakeMesh decode has_ctx bd stored_opt mc (xs @ s # ys) mat \<noteq> None"
    if "has_ctx" "stored_opt = Some stored"
    using that by (simp add: bakeMesh_with_context)
  from same_any [of stored] warned mesh alive show ?thesis
    by blast
qed

text \<open>
  C3, at an input: a sticker that fails to load between two that load.
\<close>

theorem bake_skips_failed_sticker_witness:
  "decodeByName (fs_src brokenSticker) = None
   \<and> fst (bakeCanvas decodeByName True garmentMaps ''original''
            ([stickerA] @ brokenSticker # [stickerB]))
       = fst (bakeCanvas decodeByName True garmentMaps ''original'' ([stickerA] @ [stickerB]))
   \<and> snd (bakeCanvas decodeByName True garmentMaps ''original''
            ([stickerA] @ brokenSticker # [stickerB]))
       = [StickerFailedToLoad (DataUrl ''broken.png'')]
   \<and> bakeMesh decodeByName True True (Some garmentMaps) ''original''
         ([stickerA] @ brokenSticker # [stickerB]) garment \<noteq> None"
  using bake_skips_failed_sticker [of decodeByName brokenSticker True garmentMaps "''original''"
      "[stickerA]" "[stickerB]" True "Some garmentMaps" garment]
  by (simp add: brokenSticker_def stickerA_def stickerB_def sceneSticker_def sampleSticker_def
      newSticker_def decodeByName_def bakeCanvas_warnings)

subsection \<open>The maps after a bake\<close>

text \<open>
  C5. A bake that completes assigns the composite canvas texture, with \<open>flipY\<close>
  false, as the material's color map, and assigns the normal, roughness, metalness,
  ambient-occlusion and emissive maps from the snapshot: they are the maps the material
  had when the snapshot was taken at load.
\<close>

theorem bake_replaces_only_color_map:
  assumes "bakeMesh decode has_ctx bd (Some stored) mc sts mat = Some (mat', ws)"
  shows "m_map mat'
           = Some (CanvasTexture (fst (bakeCanvas decode bd stored mc sts)) ''srgb'' False True)
       \<and> m_normalMap mat' = o_normalMap stored
       \<and> m_roughnessMap mat' = o_roughnessMap stored
       \<and> m_metalnessMap mat' = o_metalnessMap stored
       \<and> m_aoMap mat' = o_aoMap stored
       \<and> m_emissiveMap mat' = o_emissiveMap stored
       \<and> (stored = storeOriginalMaps mat0
            \<longrightarrow> m_normalMap mat' = m_normalMap mat0
              \<and> m_roughnessMap mat' = m_roughnessMap mat0
              \<and> m_metalnessMap mat' = m_metalnessMap mat0
              \<and> m_aoMap mat' = m_aoMap mat0
              \<and> m_emissiveMap mat' = m_emissiveMap mat0)"
proof -
  from assms have mat': "mat' = mat\<lparr>m_map := Some (CanvasTexture
        (fst (bakeCanvas decode bd stored mc sts)) ''srgb'' False True),
      m_normalMap := o_normalMap stored,
      m_roughnessMap := o_roughnessMap stored,
      m_metalnessMap := o_metalnessMap stored,
      m_aoMap := o_aoMap stored,
      m_emissiveMap := o_emissiveMap stored,
      m_color := Some (Color ''#ffffff''),
      m_needsUpdate := True\<rparr>"
    by (cases has_ctx) (simp_all add: bakeMesh_with_context bakeMesh_without)
  then show ?thesis
    by (simp add: storeOriginalMaps_def)
qed

text \<open>
  C5, at an input: a bake with the custom color \<open>#ff0000\<close> and one sticker.
\<close>

theorem bake_replaces_only_color_map_witness:
  "bakeMesh decodeByName True True (Some garmentMaps) ''#ff0000'' [stickerA] garment
     = Some (bakedGarment, [])
   \<and> garmentMaps = storeOriginalMaps garment
   \<and> m_map bakedGarment = Some (CanvasTexture
        (fst (bakeCanvas decodeByName True garmentMaps ''#ff0000'' [stickerA])) ''srgb'' False True)
   \<and> m_map bakedGarment \<noteq> m_map garment
   \<and> m_normalMap bakedGarment = Some (Texture ''normal'' None)
   \<and> m_roughnessMap bakedGarment = Some (Texture ''roughness'' None)
   \<and> m_metalnessMap bakedGarment = None
   \<and> m_aoMap bakedGarment = None
   \<and> m_emissiveMap bakedGarment = None"
  using bake_replaces_only_color_map [of decodeByName True True garmentMaps "''#ff0000''"
      "[stickerA]" garment bakedGarment "[]" garment]
  by (simp add: bakeMesh_with_context bakeCanvas_warnings bakedGarment_def garmentMaps_def
      garment_def baseTexture_def storeOriginalMaps_def stickerA_def sceneSticker_def
      sampleSticker_def newSticker_def decodeByName_def)

subsection \<open>The color after a bake\<close>

text \<open>
  C10. After a completed bake the material's color is white whatever the color mode is,
  Original included: the bake never assigns the stored base color. The effect that runs
  when the model color is \<open>reset\<close> assigns the stored maps and the stored base color;
  for any other model color it leaves the material as it is.
\<close>

theorem bake_sets_color_white:
  "(bakeMesh decode has_ctx bd stored_opt mc sts mat = Some (mat', ws)
      \<longrightarrow> m_color mat' = Some (Color ''#ffffff''))
   \<and> (has_ctx \<longrightarrow> map_option (m_color \<circ> fst)
          (bakeMesh decode has_ctx bd (Some stored) ''original'' sts mat)
        = Some (Some (Color ''#ffffff'')))
   \<and> resetRestore (Some stored) ''reset'' mat
       = mat\<lparr>m_map := o_map stored, m_normalMap := o_normalMap stored,
             m_roughnessMap := o_roughnessMap stored, m_metalnessMap := o_metalnessMap stored,
             m_aoMap := o_aoMap stored, m_emissiveMap := o_emissiveMap stored,
             m_color := Some (o_color stored), m_needsUpdate := True\<rparr>
   \<and> (mc \<noteq> ''reset'' \<longrightarrow> resetRestore stored_opt mc mat = mat)"
proof -
  have white: "m_color mat' = Some (Color ''#ffffff'')"
    if "bakeMesh decode has_ctx bd stored_opt mc sts mat = Some (mat', ws)"
    using that
    by (cases has_ctx; cases stored_opt) (auto simp: bakeMesh_with_context bakeMesh_without)
  have original: "map_option (m_color \<circ> fst)
          (bakeMesh decode has_ctx bd (Some stored) ''original'' sts mat)
        = Some (Some (Color ''#ffffff''))" if has_ctx
    using that by (simp add: bakeMesh_with_context)
  have restore: "resetRestore (Some stored) ''reset'' mat
       = mat\<lparr>m_map := o_map stored, m_normalMap := o_normalMap stored,
             m_roughnessMap := o_roughnessMap stored, m_metalnessMap := o_metalnessMap stored,
             m_aoMap := o_aoMap stored, m_emissiveMap := o_emissiveMap stored,
             m_color := Some (o_color stored), m_needsUpdate := True\<rparr>"
    by (simp add: resetRestore_def)
  have other: "resetRestore stored_opt mc mat = mat" if "mc \<noteq> ''reset''"
    using that by (simp add: resetRestore_def)
  from white original restore other show ?thesis
    by blast
qed

text \<open>
  C10, at an input: a garment whose base color is \<open>rgb(200,10,10)\<close>; the bake turns
  its color white, the reset restores the loaded material.
\<close>

theorem bake_sets_color_white_witness:
  "bakeMesh decodeByName True True (Some garmentMaps) ''#ff0000'' [stickerA] garment
     = Some (bakedGarment, [])
   \<and> m_color bakedGarment = Some (Color ''#ffffff'')
   \<and> o_color garmentMaps = Color ''rgb(200,10,10)''
   \<and> map_option (m_color \<circ> fst)
         (bakeMesh decodeByName True True (Some garmentMaps) ''original'' [stickerA] garment)
       = Some (Some (Color ''#ffffff''))
   \<and> resetRestore (Some garmentMaps) ''reset'' bakedGarment = garment\<lparr>m_needsUpdate := True\<rparr>
   \<and> ''original'' \<noteq> ''reset''
   \<and> resetRestore (Some garmentMaps) ''original'' bakedGarment = bakedGarment"
  using bake_sets_color_white [of decodeByName True True "Some garmentMaps" "''#ff0000''"
      "[stickerA]" garment bakedGarment "[]" garmentMaps]
    bake_sets_color_white [of decodeByName True True "Some garmentMaps" "''original''"
      "[stickerA]" bakedGarment bakedGarment "[]" garmentMaps]
  by (simp add: bakeMesh_with_context bakeCanvas_warnings bakedGarment_def garmentMaps_def
      garment_def baseTexture_def storeOriginalMaps_def stickerA_def sceneSticker_def
      sampleSticker_def newSticker_def decodeByName_def)

end
